theory Spec2Isabelle
  imports Main "HOL-Library.AList"
begin

section \<open>JavaScript values\<close>

text \<open>
  The plugin (\<^verbatim>\<open>plugin-loki-entitlements.ts\<close>) works on untyped records
  (\<^verbatim>\<open>Record<string, any>\<close>). A value is a tagged variant; an object is an association
  list of its own properties in insertion order. A number is an integer or \<^verbatim>\<open>NaN\<close>
  (fractions and infinities are not modelled); the one place where the program computes with
  a number it has parsed, the version tag, is exact only where doubles are, between
  \<open>-2^53\<close> and \<open>2^53\<close>. Objects and arrays are values here: two references are never
  identical unless stated, which is what holds between a stored document and a value parsed
  from a request.
\<close>

datatype jsval =
    JUndefined
  | JNull
  | JBool bool
  | JNum int
  | JNaN
  | JStr string
  | JArr "jsval list"
  | JObj "(string \<times> jsval) list"
  | JRegExp string string

type_synonym obj = "(string \<times> jsval) list"

text \<open>A thrown \<^verbatim>\<open>Error\<close>: its \<^verbatim>\<open>name\<close> and its \<^verbatim>\<open>message\<close>.\<close>

datatype error = Err string string

definition dquote :: string where
  "dquote = [CHR 0x22]"

definition squote :: string where
  "squote = [CHR 0x27]"

text \<open>\<^verbatim>\<open>o[k]\<close> on an object: \<^verbatim>\<open>undefined\<close> when the property is absent.\<close>

definition field :: "obj \<Rightarrow> string \<Rightarrow> jsval" where
  "field ob k = (case map_of ob k of None \<Rightarrow> JUndefined | Some v \<Rightarrow> v)"

text \<open>\<^verbatim>\<open>o[k] = v\<close>: an existing property keeps its place, a new one goes last.\<close>

definition setProp :: "obj \<Rightarrow> string \<Rightarrow> jsval \<Rightarrow> obj" where
  "setProp ob k v = AList.update k v ob"

text \<open>\<^verbatim>\<open>delete o[k]\<close>.\<close>

definition delProp :: "obj \<Rightarrow> string \<Rightarrow> obj" where
  "delProp ob k = AList.delete k ob"

text \<open>\<^verbatim>\<open>Object.keys(o)\<close>.\<close>

definition keys :: "obj \<Rightarrow> string list" where
  "keys ob = map fst ob"

text \<open>
  \<^verbatim>\<open>v.k\<close> on any value, for the property names this program reads
  (\<^verbatim>\<open>value\<close>, \<^verbatim>\<open>operation\<close>, \<^verbatim>\<open>display\<close>, \<^verbatim>\<open>type\<close>, \<^verbatim>\<open>primary\<close>):
  a TypeError on \<^verbatim>\<open>undefined\<close> and \<^verbatim>\<open>null\<close>, \<^verbatim>\<open>undefined\<close> on a primitive, an array
  or a regular expression, which have none of these properties.
\<close>

definition getProp :: "jsval \<Rightarrow> string \<Rightarrow> error + jsval" where
  "getProp v k =
     (case v of
        JUndefined \<Rightarrow> Inl (Err ''TypeError'' (''Cannot read properties of undefined (reading '' @ squote @ k @ squote @ '')''))
      | JNull \<Rightarrow> Inl (Err ''TypeError'' (''Cannot read properties of null (reading '' @ squote @ k @ squote @ '')''))
      | JObj ob \<Rightarrow> Inr (field ob k)
      | _ \<Rightarrow> Inr JUndefined)"

text \<open>Truthiness, as \<^verbatim>\<open>if (v)\<close>, \<^verbatim>\<open>!v\<close> and \<^verbatim>\<open>v || d\<close> test it.\<close>

fun truthy :: "jsval \<Rightarrow> bool" where
  "truthy JUndefined = False"
| "truthy JNull = False"
| "truthy (JBool b) = b"
| "truthy (JNum n) = (n \<noteq> 0)"
| "truthy JNaN = False"
| "truthy (JStr s) = (s \<noteq> [])"
| "truthy (JArr xs) = True"
| "truthy (JObj ob) = True"
| "truthy (JRegExp p f) = True"

definition orElse :: "jsval \<Rightarrow> jsval \<Rightarrow> jsval" where
  "orElse v d = (if truthy v then v else d)"

text \<open>
  Strict equality \<^verbatim>\<open>a === b\<close>: by value on primitives (\<^verbatim>\<open>NaN\<close> equals nothing);
  objects, arrays and regular expressions are compared by reference, and no two references
  met here are the same.
\<close>

fun strictEq :: "jsval \<Rightarrow> jsval \<Rightarrow> bool" where
  "strictEq JUndefined JUndefined = True"
| "strictEq JNull JNull = True"
| "strictEq (JBool a) (JBool b) = (a = b)"
| "strictEq (JNum a) (JNum b) = (a = b)"
| "strictEq (JStr a) (JStr b) = (a = b)"
| "strictEq a b = False"

fun isPrimitive :: "jsval \<Rightarrow> bool" where
  "isPrimitive (JArr xs) = False"
| "isPrimitive (JObj ob) = False"
| "isPrimitive (JRegExp p f) = False"
| "isPrimitive v = True"

subsection \<open>Numbers and strings\<close>

definition digitChar :: "nat \<Rightarrow> char" where
  "digitChar d = ''0123456789'' ! d"

fun natToString :: "nat \<Rightarrow> string" where
  "natToString n = (if n < 10 then [digitChar n] else natToString (n div 10) @ [digitChar (n mod 10)])"

declare natToString.simps [simp del]

text \<open>\<^verbatim>\<open>String(n)\<close> for an integer.\<close>

definition numToString :: "int \<Rightarrow> string" where
  "numToString i = (if i < 0 then CHR ''-'' # natToString (nat (- i)) else natToString (nat i))"

fun joinWith :: "string \<Rightarrow> string list \<Rightarrow> string" where
  "joinWith sep [] = []"
| "joinWith sep [x] = x"
| "joinWith sep (x # y # ys) = x @ sep @ joinWith sep (y # ys)"

text \<open>
  \<^verbatim>\<open>String(v)\<close>, the coercion of a template literal. An array joins its elements with
  commas, \<^verbatim>\<open>undefined\<close> and \<^verbatim>\<open>null\<close> elements printing as nothing. A regular expression
  prints as \<^verbatim>\<open>/source/flags\<close>; the escaping JavaScript applies to the source is not
  modelled.
\<close>

fun toStr :: "jsval \<Rightarrow> string" where
  "toStr JUndefined = ''undefined''"
| "toStr JNull = ''null''"
| "toStr (JBool b) = (if b then ''true'' else ''false'')"
| "toStr (JNum n) = numToString n"
| "toStr JNaN = ''NaN''"
| "toStr (JStr s) = s"
| "toStr (JArr xs) =
     joinWith '','' (map (\<lambda>x. if x = JUndefined \<or> x = JNull then [] else toStr x) xs)"
| "toStr (JObj ob) = ''[object Object]''"
| "toStr (JRegExp p f) = ''/'' @ p @ ''/'' @ f"

text \<open>
  \<^verbatim>\<open>s.replace(pat, '')\<close> with a string pattern: the first occurrence of \<open>pat\<close> is removed.
\<close>

fun removeFirst :: "string \<Rightarrow> string \<Rightarrow> string" where
  "removeFirst pat [] = []"
| "removeFirst pat (c # cs) =
     (if take (length pat) (c # cs) = pat then drop (length pat) (c # cs)
      else c # removeFirst pat cs)"

text \<open>
  \<^verbatim>\<open>parseInt(s)\<close>: leading white space is skipped, then an optional sign, then a
  \<^verbatim>\<open>0x\<close> prefix selects radix 16, then the longest run of digits is read; no digit at
  all gives \<^verbatim>\<open>NaN\<close>, which is \<open>None\<close> here. White space is JavaScript's among the
  characters below 256.
\<close>

definition isSpace :: "char \<Rightarrow> bool" where
  "isSpace c = (c \<in> set [CHR '' '', CHR 0x09, CHR 0x0A, CHR 0x0B, CHR 0x0C, CHR 0x0D, CHR 0xA0])"

definition digitVal :: "char \<Rightarrow> nat option" where
  "digitVal c = map_of (zip ''0123456789abcdefABCDEF''
     [0, 1, 2, 3, 4, 5, 6, 7, 8, 9, 10, 11, 12, 13, 14, 15, 10, 11, 12, 13, 14, 15]) c"

definition isDigit :: "nat \<Rightarrow> char \<Rightarrow> bool" where
  "isDigit radix c = (case digitVal c of None \<Rightarrow> False | Some d \<Rightarrow> d < radix)"

definition digitsValue :: "nat \<Rightarrow> string \<Rightarrow> nat" where
  "digitsValue radix ds =
     foldl (\<lambda>acc c. case digitVal c of None \<Rightarrow> acc | Some d \<Rightarrow> acc * radix + d) 0 ds"

definition parseDigits :: "nat \<Rightarrow> string \<Rightarrow> nat option" where
  "parseDigits radix s =
     (let ds = takeWhile (isDigit radix) s
      in if ds = [] then None else Some (digitsValue radix ds))"

definition parseUnsigned :: "string \<Rightarrow> nat option" where
  "parseUnsigned s =
     (if take 2 s = ''0x'' \<or> take 2 s = ''0X'' then parseDigits 16 (drop 2 s)
      else parseDigits 10 s)"

definition parseInt :: "string \<Rightarrow> int option" where
  "parseInt s =
     (let t = dropWhile isSpace s
      in case t of
           [] \<Rightarrow> None
         | c # cs \<Rightarrow>
             if c = CHR ''-'' then map_option (\<lambda>n. - int n) (parseUnsigned cs)
             else if c = CHR ''+'' then map_option int (parseUnsigned cs)
             else map_option int (parseUnsigned t))"

section \<open>The document store\<close>

text \<open>
  The collections live in LokiJS, a library outside this repository. What the plugin relies
  on is modelled as the store's contract: a collection is the ordered list of its documents
  (\<^verbatim>\<open>collection.data\<close>); \<^verbatim>\<open>find\<close> returns the documents a query matches;
  \<^verbatim>\<open>findOne\<close> returns the first of them (a live reference, so its position is kept here)
  or \<^verbatim>\<open>null\<close>; \<^verbatim>\<open>insert\<close> stamps the document it is given and appends it;
  \<^verbatim>\<open>update\<close> stamps a document that was changed in place; both refuse a document that
  repeats another's value of a property declared unique.

  The plugin hands the store two shapes of query object: \<^verbatim>\<open>{a: v}\<close> and
  \<^verbatim>\<open>{a: {op: v}}\<close>.
\<close>

datatype query =
    QEq string jsval
  | QOp string string jsval

text \<open>
  What the store and the JavaScript engine compute outside this repository is the parameter
  \<open>E\<close> of every operation: \<open>regexpOk p\<close> says whether \<^verbatim>\<open>new RegExp(p)\<close> succeeds (it
  throws a SyntaxError otherwise); \<open>compile q\<close> is the predicate the store tests documents
  with for the query \<open>q\<close>, or the error it throws; \<open>binaryIndex a data\<close> lists the positions
  of the documents in the order in which the store's binary index of the property \<open>a\<close> holds
  them (sorted by the property, equal values in an order that depends on the history of the
  collection); \<open>bigSucc k\<close> is the decimal the engine prints for \<^verbatim>\<open>parseInt(s) + 1\<close> when
  the digits of \<open>s\<close> denote an integer \<open>k\<close> outside the range in which doubles count
  exactly.
\<close>

record engine =
  regexpOk :: "string \<Rightarrow> bool"
  compile :: "query \<Rightarrow> error + (obj \<Rightarrow> bool)"
  binaryIndex :: "string \<Rightarrow> obj list \<Rightarrow> nat list"
  bigSucc :: "int \<Rightarrow> string"

text \<open>
  One case is fixed: equality on a top-level property with a primitive operand is strict
  equality of the stored value and the operand (the store's \<^verbatim>\<open>$eq\<close>). A property path
  with a dot, an object as operand and every other operator are left to \<open>E\<close>.
\<close>

definition isPath :: "string \<Rightarrow> bool" where
  "isPath a = (CHR ''.'' \<in> set a)"

definition predicate :: "engine \<Rightarrow> query \<Rightarrow> error + (obj \<Rightarrow> bool)" where
  "predicate E q =
     (case q of
        QEq a v \<Rightarrow>
          if \<not> isPath a \<and> isPrimitive v then Inr (\<lambda>d. strictEq (field d a) v)
          else compile E q
      | QOp a op v \<Rightarrow>
          if op = ''$eq'' \<and> \<not> isPath a \<and> isPrimitive v then Inr (\<lambda>d. strictEq (field d a) v)
          else compile E q)"

text \<open>
  The store scans a collection in the order of its documents, unless the property queried
  has a binary index (\<open>idx\<close> lists the properties that have one) and the operator is one of
  those an index answers: then the documents are visited in the order of the index. The
  operator of \<^verbatim>\<open>{a: v}\<close> is \<^verbatim>\<open>$eq\<close> when \<open>v\<close> is primitive and the first key of \<open>v\<close>
  when \<open>v\<close> is an object. Positions outside the collection, which an index never holds, are
  skipped.
\<close>

definition indexedOps :: "string list" where
  "indexedOps = [''$eq'', ''$aeq'', ''$dteq'', ''$gt'', ''$gte'', ''$lt'', ''$lte'', ''$in'', ''$between'']"

definition queryProperty :: "query \<Rightarrow> string" where
  "queryProperty q = (case q of QEq a v \<Rightarrow> a | QOp a op v \<Rightarrow> a)"

definition queryOperator :: "query \<Rightarrow> string option" where
  "queryOperator q =
     (case q of
        QOp a op v \<Rightarrow> Some op
      | QEq a v \<Rightarrow>
          if isPrimitive v then Some ''$eq''
          else (case v of JObj ((k, w) # rest) \<Rightarrow> Some k | _ \<Rightarrow> None))"

definition usesIndex :: "string list \<Rightarrow> query \<Rightarrow> bool" where
  "usesIndex idx q =
     (queryProperty q \<in> set idx
      \<and> (case queryOperator q of None \<Rightarrow> False | Some op \<Rightarrow> op \<in> set indexedOps))"

definition indexPositions :: "engine \<Rightarrow> string \<Rightarrow> obj list \<Rightarrow> nat list" where
  "indexPositions E a data = filter (\<lambda>i. i < length data) (binaryIndex E a data)"

definition find' :: "engine \<Rightarrow> string list \<Rightarrow> obj list \<Rightarrow> query \<Rightarrow> error + obj list" where
  "find' E idx data q =
     (case predicate E q of
        Inl e \<Rightarrow> Inl e
      | Inr P \<Rightarrow>
          Inr (filter P (if usesIndex idx q
                         then map (\<lambda>i. data ! i) (indexPositions E (queryProperty q) data)
                         else data)))"

fun firstMatch :: "(obj \<Rightarrow> bool) \<Rightarrow> obj list \<Rightarrow> (nat \<times> obj) option" where
  "firstMatch P [] = None"
| "firstMatch P (d # ds) =
     (if P d then Some (0, d) else map_option (\<lambda>(i, x). (Suc i, x)) (firstMatch P ds))"

fun firstAt :: "(obj \<Rightarrow> bool) \<Rightarrow> obj list \<Rightarrow> nat list \<Rightarrow> (nat \<times> obj) option" where
  "firstAt P data [] = None"
| "firstAt P data (i # rest) = (if P (data ! i) then Some (i, data ! i) else firstAt P data rest)"

text \<open>
  \<^verbatim>\<open>findOne\<close>: the first match with its position, \<open>None\<close> for \<^verbatim>\<open>null\<close>.
\<close>

definition findOne :: "engine \<Rightarrow> string list \<Rightarrow> obj list \<Rightarrow> query \<Rightarrow> error + (nat \<times> obj) option" where
  "findOne E idx data q =
     (case predicate E q of
        Inl e \<Rightarrow> Inl e
      | Inr P \<Rightarrow>
          Inr (if usesIndex idx q then firstAt P data (indexPositions E (queryProperty q) data)
               else firstMatch P data))"

text \<open>
  A unique index keys documents by the string form of the property; a document without
  the property (\<^verbatim>\<open>undefined\<close> or \<^verbatim>\<open>null\<close>) is not indexed. The unique properties are
  checked in the order in which the collection declares them, and the first one that another
  document already holds is the one reported. The index is read off the collection here: the
  two agree as long as every change made in place was written back with \<^verbatim>\<open>update\<close>.
\<close>

definition indexed :: "jsval \<Rightarrow> bool" where
  "indexed v = (v \<noteq> JUndefined \<and> v \<noteq> JNull)"

definition clashes :: "string \<Rightarrow> obj \<Rightarrow> obj \<Rightarrow> bool" where
  "clashes k d e =
     (indexed (field d k) \<and> indexed (field e k) \<and> toStr (field d k) = toStr (field e k))"

definition duplicateKey :: "string list \<Rightarrow> obj \<Rightarrow> obj list \<Rightarrow> string option" where
  "duplicateKey uniq d others = List.find (\<lambda>k. list_ex (clashes k d) others) uniq"

definition duplicateError :: "string \<Rightarrow> obj \<Rightarrow> error" where
  "duplicateError k d = Err ''Error'' (''Duplicate key for property '' @ k @ '': '' @ toStr (field d k))"

text \<open>
  A TypeError thrown by the JavaScript engine. The wording of its message is the engine's:
  the messages here are V8's, and what is proved of a TypeError below is its name.
\<close>

definition typeError :: "string \<Rightarrow> error" where
  "typeError msg = Err ''TypeError'' msg"

fun errName :: "error \<Rightarrow> string" where
  "errName (Err name msg) = name"

text \<open>
  \<^verbatim>\<open>insert(doc)\<close> works on the object it is given, which is the one the caller keeps. A
  document without \<^verbatim>\<open>meta\<close> gets \<^verbatim>\<open>{revision: 0, created: 0}\<close>; a document that already
  has \<^verbatim>\<open>$loki\<close> is refused; then \<^verbatim>\<open>$loki\<close> becomes the next number of the collection's
  counter (\<open>loki\<close>) and \<^verbatim>\<open>meta.version\<close> becomes \<open>0\<close>; the unique properties are checked;
  the document is appended; and last \<^verbatim>\<open>meta.created\<close> becomes the reading of the store's
  clock in milliseconds (\<open>ms\<close>) and \<^verbatim>\<open>meta.revision\<close> becomes \<open>0\<close>. The result is the
  collection and the document as stored. A \<^verbatim>\<open>meta\<close> that is neither absent nor an object
  has no property to assign to; the plugin never hands the store one (it deletes or replaces
  \<^verbatim>\<open>meta\<close> before every insert).
\<close>

definition insertDoc ::
  "string list \<Rightarrow> obj list \<Rightarrow> int \<Rightarrow> int \<Rightarrow> obj \<Rightarrow> error + obj list \<times> obj" where
  "insertDoc uniq data loki ms d =
     (let d1 = (if field d ''meta'' = JUndefined
                then setProp d ''meta'' (JObj [(''revision'', JNum 0), (''created'', JNum 0)])
                else d)
      in if field d1 ''$loki'' \<noteq> JUndefined then
           Inl (Err ''Error'' ''Document is already in collection, please use update()'')
         else
           (case field d1 ''meta'' of
              JObj meta \<Rightarrow>
                (let meta1 = setProp meta ''version'' (JNum 0);
                     d2 = setProp (setProp d1 ''$loki'' (JNum loki)) ''meta'' (JObj meta1)
                 in case duplicateKey uniq d2 data of
                      Some k \<Rightarrow> Inl (duplicateError k d2)
                    | None \<Rightarrow>
                        (let meta2 = setProp (setProp meta1 ''created'' (JNum ms)) ''revision'' (JNum 0);
                             d3 = setProp d2 ''meta'' (JObj meta2)
                         in Inr (data @ [d3], d3)))
            | _ \<Rightarrow> Inl (typeError ''Cannot set property version of meta'')))"

text \<open>
  \<^verbatim>\<open>n += 1\<close> on a property that should hold a count: a number is advanced (a double
  stays where it is at \<open>2^53\<close>), a missing number gives \<^verbatim>\<open>NaN\<close>, a string is extended.
\<close>

definition plusOne :: "jsval \<Rightarrow> jsval" where
  "plusOne v =
     (case v of
        JNum n \<Rightarrow> JNum (if n < 2 ^ 53 then n + 1 else n)
      | JNaN \<Rightarrow> JNaN
      | JUndefined \<Rightarrow> JNaN
      | JNull \<Rightarrow> JNum 1
      | JBool b \<Rightarrow> JNum (if b then 2 else 1)
      | _ \<Rightarrow> JStr (toStr v @ ''1''))"

text \<open>
  \<^verbatim>\<open>update(doc)\<close> after the document at position \<open>i\<close> was changed in place to \<open>d\<close>:
  the change is in the collection either way (the document is a live reference). The call
  throws when \<open>d\<close> has no \<^verbatim>\<open>$loki\<close> or now repeats a unique value of another document;
  otherwise \<^verbatim>\<open>meta.updated\<close> becomes the reading of the store's clock and
  \<^verbatim>\<open>meta.revision\<close> is advanced. The store finds the document by its \<^verbatim>\<open>$loki\<close>; the
  document is the one \<^verbatim>\<open>findOne\<close> returned, whose position is \<open>i\<close>. The result is the
  error if any, the collection and the document as the call leaves them.
\<close>

definition updateDoc ::
  "string list \<Rightarrow> obj list \<Rightarrow> int \<Rightarrow> nat \<Rightarrow> obj \<Rightarrow> error option \<times> obj list \<times> obj" where
  "updateDoc uniq data ms i d =
     (if ''$loki'' \<notin> set (keys d) then
        (Some (Err ''Error'' (''Trying to update unsynced document. ''
           @ ''Please save the document first by using insert() or addMany()'')),
         data[i := d], d)
      else
        (case duplicateKey uniq d (take i data @ drop (Suc i) data) of
           Some k \<Rightarrow> (Some (duplicateError k d), data[i := d], d)
         | None \<Rightarrow>
             (case field d ''meta'' of
                JObj meta \<Rightarrow>
                  (let meta1 = setProp meta ''updated'' (JNum ms);
                       d1 = setProp d ''meta''
                              (JObj (setProp meta1 ''revision'' (plusOne (field meta1 ''revision''))))
                   in (None, data[i := d1], d1))
              | _ \<Rightarrow> (Some (typeError ''Cannot set property updated of meta''), data[i := d], d))))"

subsection \<open>A tenant's collections\<close>

text \<open>
  \<^verbatim>\<open>config.entity[baseEntity]\<close> holds the three collections of a tenant; the load
  handler declares the unique properties of each, and binary indexes for the entitlements
  only.
\<close>

record entity =
  users :: "obj list"
  groups :: "obj list"
  entitlements :: "obj list"

type_synonym config = "string \<Rightarrow> entity option"

definition usersUnique :: "string list" where
  "usersUnique = [''id'', ''userName'']"

definition groupsUnique :: "string list" where
  "groupsUnique = [''displayName'']"

definition entitlementsUnique :: "string list" where
  "entitlementsUnique = [''id'']"

definition entitlementsIndices :: "string list" where
  "entitlementsIndices = [''id'', ''type'']"

definition unsupportedBaseEntity :: "string \<Rightarrow> error" where
  "unsupportedBaseEntity baseEntity = Err ''Error'' (''unsupported baseEntity='' @ baseEntity)"

section \<open>Queries\<close>

text \<open>
  The query object \<^verbatim>\<open>getObj\<close> that the gateway hands to \<^verbatim>\<open>getUsers\<close>,
  \<^verbatim>\<open>getGroups\<close> and \<^verbatim>\<open>getEntitlements\<close>. An absent property is \<open>None\<close>
  (\<^verbatim>\<open>JUndefined\<close> for the filter value, which may be any value and becomes a regular
  expression when the operator is translated). The gateway fills \<^verbatim>\<open>attribute\<close>,
  \<^verbatim>\<open>operator\<close> and \<^verbatim>\<open>rawFilter\<close> with strings and \<^verbatim>\<open>startIndex\<close> and
  \<^verbatim>\<open>count\<close> with whole numbers, which is how the record types them; the value of the
  filter is the property \<^verbatim>\<open>value\<close>, here \<open>fvalue\<close>. The operations assign to the
  object, so they return it.
\<close>

record getObj =
  attribute :: "string option"
  operator :: "string option"
  fvalue :: jsval
  rawFilter :: "string option"
  startIndex :: "int option"
  count :: "int option"

record result =
  Resources :: "obj list"
  totalResults :: nat

definition validFilterOperators :: "string list" where
  "validFilterOperators =
     [''eq'', ''ne'', ''aeq'', ''dteq'', ''gt'', ''gte'', ''lt'', ''lte'', ''between'', ''jgt'',
      ''jgte'', ''jlt'', ''jlte'', ''jbetween'', ''regex'', ''in'', ''nin'', ''keyin'', ''nkeyin'',
      ''definedin'', ''undefinedin'', ''contains'', ''containsAny'', ''type'', ''finite'', ''size'',
      ''len'', ''exists'']"

text \<open>A string property read as a condition or as a property key.\<close>

definition given :: "string option \<Rightarrow> bool" where
  "given s = (case s of None \<Rightarrow> False | Some t \<Rightarrow> t \<noteq> [])"

definition asKey :: "string option \<Rightarrow> string" where
  "asKey s = (case s of None \<Rightarrow> ''undefined'' | Some t \<Rightarrow> t)"

text \<open>\<^verbatim>\<open>n || d\<close> on a number: absent and \<open>0\<close> both give the default.\<close>

definition orDefault :: "int option \<Rightarrow> int \<Rightarrow> int" where
  "orDefault n d = (case n of None \<Rightarrow> d | Some k \<Rightarrow> if k = 0 then d else k)"

definition invalidFilter :: "string \<Rightarrow> string \<Rightarrow> error" where
  "invalidFilter action op =
     Err ''invalidFilter''
       (action @ '' error: filter operator '' @ squote @ op @ squote
        @ '' is not valid, valid operators for this endpoint are: ''
        @ joinWith '','' validFilterOperators @ '',co,ge,le,sw,ew'')"

definition syntaxError :: "string \<Rightarrow> error" where
  "syntaxError p = Err ''SyntaxError'' (''Invalid regular expression: /'' @ p @ ''/'')"

text \<open>
  The \<^verbatim>\<open>switch\<close> that converts the operator "to plugin supported syntax"; the three query
  functions repeat it word for word, with their own \<open>action\<close> in the message. It assigns to
  \<^verbatim>\<open>getObj.operator\<close> and, for \<^verbatim>\<open>sw\<close> and \<^verbatim>\<open>ew\<close>, to \<^verbatim>\<open>getObj.value\<close>; the
  operator is assigned before the regular expression is built, so a SyntaxError leaves the
  new operator behind.
\<close>

definition convertOperator :: "engine \<Rightarrow> string \<Rightarrow> getObj \<Rightarrow> error option \<times> getObj" where
  "convertOperator E action g =
     (case operator g of
        None \<Rightarrow> (None, g)
      | Some op \<Rightarrow>
          if op = [] then (None, g)
          else if op = ''co'' then (None, g\<lparr>operator := Some ''$contains''\<rparr>)
          else if op = ''ge'' then (None, g\<lparr>operator := Some ''$gte''\<rparr>)
          else if op = ''le'' then (None, g\<lparr>operator := Some ''$lte''\<rparr>)
          else if op = ''sw'' then
            (let p = ''^'' @ toStr (fvalue g) @ ''.*''
             in if regexpOk E p
                then (None, g\<lparr>operator := Some ''$regex'', fvalue := JRegExp p []\<rparr>)
                else (Some (syntaxError p), g\<lparr>operator := Some ''$regex''\<rparr>))
          else if op = ''ew'' then
            (let p = ''.*'' @ toStr (fvalue g) @ ''$''
             in if regexpOk E p
                then (None, g\<lparr>operator := Some ''$regex'', fvalue := JRegExp p []\<rparr>)
                else (Some (syntaxError p), g\<lparr>operator := Some ''$regex''\<rparr>))
          else if op \<notin> set validFilterOperators then (Some (invalidFilter action op), g)
          else (None, g\<lparr>operator := Some (''$'' @ op)\<rparr>))"

text \<open>
  \<^verbatim>\<open>arr.slice(start, end)\<close>: a negative bound counts from the end of the array.
\<close>

definition slice :: "'a list \<Rightarrow> int \<Rightarrow> int \<Rightarrow> 'a list" where
  "slice xs s e =
     (let len = int (length xs);
          k = (if s < 0 then max (len + s) 0 else min s len);
          fin = (if e < 0 then max (len + e) 0 else min e len)
      in take (nat (fin - k)) (drop (nat k) xs))"

text \<open>The paging at the end of each query function.\<close>

definition paginate :: "getObj \<Rightarrow> obj list \<Rightarrow> result" where
  "paginate g arr =
     (let startIdx = orDefault (startIndex g) 1;
          cnt = orDefault (count g) 100;
          start = max 0 (startIdx - 1);
          end = start + cnt
      in \<lparr>Resources = slice arr start end, totalResults = length arr\<rparr>)"

definition advancedFiltering :: "string \<Rightarrow> string option \<Rightarrow> error" where
  "advancedFiltering action raw =
     Err ''Error'' (action @ '' error: not supporting advanced filtering: '' @ asKey raw)"

text \<open>
  The "mandatory if-else logic" of the three query functions. They differ in the collection
  read, in the attributes that make a unique lookup (\<open>uniq\<close>) and in the attribute of the
  membership scan (\<open>member\<close>: \<^verbatim>\<open>group.value\<close> for users, \<^verbatim>\<open>members.value\<close> for groups,
  none for entitlements); \<open>idx\<close> lists the binary indexes of the collection.
\<close>

definition selectDocs ::
  "engine \<Rightarrow> string \<Rightarrow> string list \<Rightarrow> string option \<Rightarrow> string list \<Rightarrow> obj list \<Rightarrow> getObj
     \<Rightarrow> error + obj list" where
  "selectDocs E action uniq member idx data g =
     (if given (operator g) then
        (if operator g = Some ''$eq'' \<and> attribute g \<in> set (map Some uniq) then
           (if attribute g = Some ''id'' then find' E idx data (QEq ''id'' (fvalue g))
            else find' E idx data
                   (QOp (asKey (attribute g)) ''$regex''
                      (JArr [JStr (''^'' @ toStr (fvalue g) @ ''$''), JStr ''i''])))
         else if operator g = Some ''$eq'' \<and> attribute g \<noteq> None \<and> attribute g = member then
           find' E idx data (QEq (asKey (attribute g)) (fvalue g))
         else find' E idx data (QOp (asKey (attribute g)) (asKey (operator g)) (fvalue g)))
      else if given (rawFilter g) then Inl (advancedFiltering action (rawFilter g))
      else Inr data)"

definition runQuery ::
  "engine \<Rightarrow> string \<Rightarrow> string list \<Rightarrow> string option \<Rightarrow> string list \<Rightarrow> obj list \<Rightarrow> getObj
     \<Rightarrow> (error + result) \<times> getObj" where
  "runQuery E action uniq member idx data g =
     (case convertOperator E action g of
        (Some e, g') \<Rightarrow> (Inl e, g')
      | (None, g') \<Rightarrow>
          (case selectDocs E action uniq member idx data g' of
             Inl e \<Rightarrow> (Inl e, g')
           | Inr arr \<Rightarrow> (Inr (paginate g' arr), g')))"

text \<open>
  The three operations: the outcome, the query object as the call leaves it, and the
  configuration (with the collections) as the call leaves it.
\<close>

definition getEntitlements ::
  "engine \<Rightarrow> config \<Rightarrow> string \<Rightarrow> getObj \<Rightarrow> (error + result) \<times> getObj \<times> config" where
  "getEntitlements E cfg baseEntity g =
     (case cfg baseEntity of
        None \<Rightarrow> (Inl (unsupportedBaseEntity baseEntity), g, cfg)
      | Some ent \<Rightarrow>
          (case runQuery E ''getEntitlements'' [''id'', ''displayName'', ''type''] None
                  entitlementsIndices (entitlements ent) g of
             (r, g') \<Rightarrow> (r, g', cfg)))"

definition getUsers ::
  "engine \<Rightarrow> config \<Rightarrow> string \<Rightarrow> getObj \<Rightarrow> (error + result) \<times> getObj \<times> config" where
  "getUsers E cfg baseEntity g =
     (case cfg baseEntity of
        None \<Rightarrow> (Inl (unsupportedBaseEntity baseEntity), g, cfg)
      | Some ent \<Rightarrow>
          (case runQuery E ''getUsers'' [''id'', ''userName'', ''externalId''] (Some ''group.value'')
                  [] (users ent) g of
             (r, g') \<Rightarrow> (r, g', cfg)))"

definition getGroups ::
  "engine \<Rightarrow> config \<Rightarrow> string \<Rightarrow> getObj \<Rightarrow> (error + result) \<times> getObj \<times> config" where
  "getGroups E cfg baseEntity g =
     (case cfg baseEntity of
        None \<Rightarrow> (Inl (unsupportedBaseEntity baseEntity), g, cfg)
      | Some ent \<Rightarrow>
          (case runQuery E ''getGroups'' [''id'', ''displayName'', ''externalId''] (Some ''members.value'')
                  [] (groups ent) g of
             (r, g') \<Rightarrow> (r, g', cfg)))"

section \<open>Mutations\<close>

text \<open>
  Collaborators outside the source files are parameters: \<open>uuid\<close> is what
  \<^verbatim>\<open>scimgateway.getUuid()\<close> returns, each \<^verbatim>\<open>new Date().toISOString()\<close> is a
  reading of the clock passed in (\<^verbatim>\<open>createUser\<close> reads it twice), and \<open>loki\<close> and
  \<open>ms\<close> are the number and the clock reading the store stamps a document with. Every
  operation returns its outcome and the configuration as the call leaves it; a document
  found by \<^verbatim>\<open>findOne\<close> is changed in place, so whatever was assigned before a throw stays
  in the collection.
\<close>

text \<open>
  Modelled from the spec: \<^verbatim>\<open>scimgateway.copyObj\<close>, which is not among the source files;
  "\<^verbatim>\<open>clone(v) -> v'\<close>: returns a structurally independent deep copy". Values carry no
  identity here, so the copy is the value.
\<close>

definition copyObj :: "obj \<Rightarrow> obj" where
  "copyObj ob = ob"

definition namedError :: "string \<Rightarrow> string \<Rightarrow> error" where
  "namedError name msg = Err name msg"

definition notFound :: "string \<Rightarrow> string \<Rightarrow> string \<Rightarrow> error" where
  "notFound action kind ident =
     namedError ''notFound'' (action @ '' error: '' @ kind @ '' id='' @ ident @ '' does not exist'')"

definition setUsers :: "config \<Rightarrow> string \<Rightarrow> entity \<Rightarrow> obj list \<Rightarrow> config" where
  "setUsers cfg baseEntity ent data = cfg(baseEntity \<mapsto> ent\<lparr>users := data\<rparr>)"

definition setGroups :: "config \<Rightarrow> string \<Rightarrow> entity \<Rightarrow> obj list \<Rightarrow> config" where
  "setGroups cfg baseEntity ent data = cfg(baseEntity \<mapsto> ent\<lparr>groups := data\<rparr>)"

definition setEntitlements :: "config \<Rightarrow> string \<Rightarrow> entity \<Rightarrow> obj list \<Rightarrow> config" where
  "setEntitlements cfg baseEntity ent data = cfg(baseEntity \<mapsto> ent\<lparr>entitlements := data\<rparr>)"

subsection \<open>createUser, createGroup\<close>

definition newMeta :: "string \<Rightarrow> string \<Rightarrow> string \<Rightarrow> jsval" where
  "newMeta resourceType t1 t2 =
     JObj [(''resourceType'', JStr resourceType),
           (''created'', JStr t1),
           (''lastModified'', JStr t2),
           (''version'', JStr (''W/'' @ dquote @ ''1'' @ dquote))]"

text \<open>
  The user returned is the object that was handed to \<^verbatim>\<open>users.insert\<close>, so it is the
  document as the store stamped it.
\<close>

definition createUser ::
  "engine \<Rightarrow> string \<Rightarrow> string \<Rightarrow> string \<Rightarrow> int \<Rightarrow> int \<Rightarrow> config \<Rightarrow> string \<Rightarrow> obj
     \<Rightarrow> (error + obj) \<times> config" where
  "createUser E uuid t1 t2 loki ms cfg baseEntity scimdata =
     (case cfg baseEntity of
        None \<Rightarrow> (Inl (unsupportedBaseEntity baseEntity), cfg)
      | Some ent \<Rightarrow>
          if \<not> truthy (field scimdata ''userName'') then
            (Inl (namedError ''invalidValue'' ''createUser error: userName is required''), cfg)
          else
            (case findOne E [] (users ent) (QEq ''userName'' (field scimdata ''userName'')) of
               Inl e \<Rightarrow> (Inl e, cfg)
             | Inr (Some existingUser) \<Rightarrow>
                 (Inl (namedError ''uniqueness''
                    (''createUser error: user with userName '' @ squote
                     @ toStr (field scimdata ''userName'') @ squote @ '' already exists'')), cfg)
             | Inr None \<Rightarrow>
                 (let user = setProp (setProp (copyObj scimdata) ''id'' (JStr uuid))
                               ''meta'' (newMeta ''User'' t1 t2)
                  in case insertDoc usersUnique (users ent) loki ms user of
                       Inl e \<Rightarrow> (Inl e, cfg)
                     | Inr (data, stored) \<Rightarrow> (Inr stored, setUsers cfg baseEntity ent data))))"

definition createGroup ::
  "engine \<Rightarrow> string \<Rightarrow> string \<Rightarrow> string \<Rightarrow> int \<Rightarrow> int \<Rightarrow> config \<Rightarrow> string \<Rightarrow> obj
     \<Rightarrow> (error + obj) \<times> config" where
  "createGroup E uuid t1 t2 loki ms cfg baseEntity scimdata =
     (case cfg baseEntity of
        None \<Rightarrow> (Inl (unsupportedBaseEntity baseEntity), cfg)
      | Some ent \<Rightarrow>
          if \<not> truthy (field scimdata ''displayName'') then
            (Inl (namedError ''invalidValue'' ''createGroup error: displayName is required''), cfg)
          else
            (case findOne E [] (groups ent) (QEq ''displayName'' (field scimdata ''displayName'')) of
               Inl e \<Rightarrow> (Inl e, cfg)
             | Inr (Some existingGroup) \<Rightarrow>
                 (Inl (namedError ''uniqueness''
                    (''createGroup error: group with displayName '' @ squote
                     @ toStr (field scimdata ''displayName'') @ squote @ '' already exists'')), cfg)
             | Inr None \<Rightarrow>
                 (let group' = setProp (setProp (copyObj scimdata) ''id'' (JStr uuid))
                                ''meta'' (newMeta ''Group'' t1 t2)
                  in case insertDoc groupsUnique (groups ent) loki ms group' of
                       Inl e \<Rightarrow> (Inl e, cfg)
                     | Inr (data, stored) \<Rightarrow> (Inr stored, setGroups cfg baseEntity ent data))))"

subsection \<open>The entitlement grants of a patch\<close>

text \<open>\<^verbatim>\<open>v.k\<close> on a value already known not to be \<^verbatim>\<open>undefined\<close> or \<^verbatim>\<open>null\<close>.\<close>

definition readProp :: "jsval \<Rightarrow> string \<Rightarrow> jsval" where
  "readProp v k = (case v of JObj ob \<Rightarrow> field ob k | _ \<Rightarrow> JUndefined)"

text \<open>
  \<^verbatim>\<open>user.entitlements.find((e) => e.value === value)\<close>: the first grant with the value,
  \<^verbatim>\<open>undefined\<close> when there is none; reading \<^verbatim>\<open>e.value\<close> throws on an element that is
  \<^verbatim>\<open>null\<close> or \<^verbatim>\<open>undefined\<close>.
\<close>

fun findGrant :: "jsval list \<Rightarrow> jsval \<Rightarrow> error + jsval" where
  "findGrant [] v = Inr JUndefined"
| "findGrant (e # es) v =
     (case getProp e ''value'' of
        Inl err \<Rightarrow> Inl err
      | Inr w \<Rightarrow> if strictEq w v then Inr e else findGrant es v)"

text \<open>\<^verbatim>\<open>user.entitlements.filter((e) => e.value !== value)\<close>.\<close>

fun filterGrants :: "jsval list \<Rightarrow> jsval \<Rightarrow> error + jsval list" where
  "filterGrants [] v = Inr []"
| "filterGrants (e # es) v =
     (case getProp e ''value'' of
        Inl err \<Rightarrow> Inl err
      | Inr w \<Rightarrow>
          (case filterGrants es v of
             Inl err \<Rightarrow> Inl err
           | Inr r \<Rightarrow> Inr (if \<not> strictEq w v then e # r else r)))"

definition newGrant :: "jsval \<Rightarrow> jsval" where
  "newGrant entitlement =
     JObj [(''value'', readProp entitlement ''value''),
           (''display'', orElse (readProp entitlement ''display'') (readProp entitlement ''value'')),
           (''type'', orElse (readProp entitlement ''type'') (JStr ''License'')),
           (''primary'', orElse (readProp entitlement ''primary'') (JBool False))]"

text \<open>
  One turn of the loop over \<^verbatim>\<open>scimdata.entitlements\<close>: the user as the turn leaves it,
  and the error if the turn throws. A \<^verbatim>\<open>user.entitlements\<close> that is truthy and not an
  array has no \<^verbatim>\<open>find\<close> or \<^verbatim>\<open>filter\<close> to call.
\<close>

definition patchEntry :: "obj \<Rightarrow> jsval \<Rightarrow> error option \<times> obj" where
  "patchEntry user entitlement =
     (case getProp entitlement ''operation'' of
        Inl err \<Rightarrow> (Some err, user)
      | Inr operation \<Rightarrow>
          if strictEq operation (JStr ''add'') then
            (let user1 = (if \<not> truthy (field user ''entitlements'')
                          then setProp user ''entitlements'' (JArr []) else user)
             in case field user1 ''entitlements'' of
                  JArr gs \<Rightarrow>
                    (case findGrant gs (readProp entitlement ''value'') of
                       Inl err \<Rightarrow> (Some err, user1)
                     | Inr existingEntitlement \<Rightarrow>
                         if \<not> truthy existingEntitlement
                         then (None, setProp user1 ''entitlements'' (JArr (gs @ [newGrant entitlement])))
                         else (None, user1))
                | _ \<Rightarrow> (Some (typeError ''user.entitlements.find is not a function''), user1))
          else if strictEq operation (JStr ''remove'') then
            (if truthy (field user ''entitlements'') then
               (case field user ''entitlements'' of
                  JArr gs \<Rightarrow>
                    (case filterGrants gs (readProp entitlement ''value'') of
                       Inl err \<Rightarrow> (Some err, user)
                     | Inr kept \<Rightarrow> (None, setProp user ''entitlements'' (JArr kept)))
                | _ \<Rightarrow> (Some (typeError ''user.entitlements.filter is not a function''), user))
             else (None, user))
          else (None, user))"

fun patchEntitlements :: "obj \<Rightarrow> jsval list \<Rightarrow> error option \<times> obj" where
  "patchEntitlements user [] = (None, user)"
| "patchEntitlements user (entitlement # rest) =
     (case patchEntry user entitlement of
        (Some err, user') \<Rightarrow> (Some err, user')
      | (None, user') \<Rightarrow> patchEntitlements user' rest)"

subsection \<open>modifyUser, modifyGroup, modifyEntitlement\<close>

text \<open>
  \<^verbatim>\<open>Object.keys(scimdata).forEach(key => { if (key !== 'id' && key !== 'meta')
  user[key] = scimdata[key] })\<close>.
\<close>

definition mergeProps :: "obj \<Rightarrow> obj \<Rightarrow> obj" where
  "mergeProps target scimdata =
     foldl (\<lambda>u key. if key \<noteq> ''id'' \<and> key \<noteq> ''meta'' then setProp u key (field scimdata key) else u)
       target (keys scimdata)"

text \<open>
  The version after an update, from the version before it:
  \<^verbatim>\<open>'W/"' + (parseInt(version?.replace('W/"', '').replace('"', '') || '0') + 1) + '"'\<close>.
  A \<^verbatim>\<open>NaN\<close> prints as \<^verbatim>\<open>NaN\<close>. The sum is a double: it is the integer sum where doubles
  count exactly, and the engine's \<open>bigSucc\<close> elsewhere. A version that is neither absent nor
  a string has no \<^verbatim>\<open>replace\<close> to call, and the call of it throws; \<open>who\<close> is the name of
  the variable in the message (\<^verbatim>\<open>user\<close> or \<^verbatim>\<open>group\<close>).
\<close>

definition formatVersion :: "engine \<Rightarrow> int option \<Rightarrow> string" where
  "formatVersion E n =
     ''W/'' @ dquote
     @ (case n of
          None \<Rightarrow> ''NaN''
        | Some k \<Rightarrow> if - (2 ^ 53) \<le> k \<and> k < 2 ^ 53 then numToString (k + 1) else bigSucc E k)
     @ dquote"

definition nextVersion :: "engine \<Rightarrow> string \<Rightarrow> jsval \<Rightarrow> error + string" where
  "nextVersion E who version =
     (case version of
        JUndefined \<Rightarrow> Inr (formatVersion E (parseInt ''0''))
      | JNull \<Rightarrow> Inr (formatVersion E (parseInt ''0''))
      | JStr s \<Rightarrow>
          (let t = removeFirst dquote (removeFirst (''W/'' @ dquote) s)
           in Inr (formatVersion E (parseInt (if t = [] then ''0'' else t))))
      | _ \<Rightarrow> Inl (typeError (who @ ''.meta.version?.replace is not a function'')))"

text \<open>
  \<^verbatim>\<open>if (user.meta) { user.meta.lastModified = ...; user.meta.version = ... }\<close>. The
  assignment to a truthy \<^verbatim>\<open>meta\<close> that is not an object throws (module code is strict);
  an array or a regular expression as \<^verbatim>\<open>meta\<close>, which no operation here stores, is
  treated the same way.
\<close>

definition advanceMeta :: "engine \<Rightarrow> string \<Rightarrow> string \<Rightarrow> obj \<Rightarrow> error option \<times> obj" where
  "advanceMeta E who now target =
     (if \<not> truthy (field target ''meta'') then (None, target)
      else case field target ''meta'' of
             JObj meta \<Rightarrow>
               (let meta1 = setProp meta ''lastModified'' (JStr now)
                in case nextVersion E who (field meta1 ''version'') of
                     Inl err \<Rightarrow> (Some err, setProp target ''meta'' (JObj meta1))
                   | Inr v \<Rightarrow>
                       (None, setProp target ''meta'' (JObj (setProp meta1 ''version'' (JStr v)))))
           | _ \<Rightarrow> (Some (typeError ''Cannot create property lastModified''), target))"

text \<open>
  "Handle entitlements in PATCH operations": when \<^verbatim>\<open>scimdata.entitlements\<close> is an array
  the loop runs over it and the property is then deleted from \<^verbatim>\<open>scimdata\<close>, "to avoid
  duplicate processing". The result is the error if the loop throws, the user, and
  \<^verbatim>\<open>scimdata\<close> as the block leaves it.
\<close>

definition handleEntitlements :: "obj \<Rightarrow> obj \<Rightarrow> error option \<times> obj \<times> obj" where
  "handleEntitlements user scimdata =
     (case field scimdata ''entitlements'' of
        JArr es \<Rightarrow>
          (case patchEntitlements user es of
             (Some err, user1) \<Rightarrow> (Some err, user1, scimdata)
           | (None, user1) \<Rightarrow> (None, user1, delProp scimdata ''entitlements''))
      | _ \<Rightarrow> (None, user, scimdata))"

definition modifyUser ::
  "engine \<Rightarrow> string \<Rightarrow> int \<Rightarrow> config \<Rightarrow> string \<Rightarrow> string \<Rightarrow> obj \<Rightarrow> (error + obj) \<times> config" where
  "modifyUser E now ms cfg baseEntity ident scimdata =
     (case cfg baseEntity of
        None \<Rightarrow> (Inl (unsupportedBaseEntity baseEntity), cfg)
      | Some ent \<Rightarrow>
          (case findOne E [] (users ent) (QEq ''id'' (JStr ident)) of
             Inl e \<Rightarrow> (Inl e, cfg)
           | Inr None \<Rightarrow> (Inl (notFound ''modifyUser'' ''user'' ident), cfg)
           | Inr (Some (i, user)) \<Rightarrow>
               (case handleEntitlements user scimdata of
                  (Some err, user1, scimdata1) \<Rightarrow>
                    (Inl err, setUsers cfg baseEntity ent ((users ent)[i := user1]))
                | (None, user1, scimdata1) \<Rightarrow>
                    (case advanceMeta E ''user'' now (mergeProps user1 scimdata1) of
                       (Some err, user2) \<Rightarrow>
                         (Inl err, setUsers cfg baseEntity ent ((users ent)[i := user2]))
                     | (None, user2) \<Rightarrow>
                         (case updateDoc usersUnique (users ent) ms i user2 of
                            (Some err, data, user3) \<Rightarrow> (Inl err, setUsers cfg baseEntity ent data)
                          | (None, data, user3) \<Rightarrow> (Inr user3, setUsers cfg baseEntity ent data))))))"

definition modifyGroup ::
  "engine \<Rightarrow> string \<Rightarrow> int \<Rightarrow> config \<Rightarrow> string \<Rightarrow> string \<Rightarrow> obj \<Rightarrow> (error + obj) \<times> config" where
  "modifyGroup E now ms cfg baseEntity ident scimdata =
     (case cfg baseEntity of
        None \<Rightarrow> (Inl (unsupportedBaseEntity baseEntity), cfg)
      | Some ent \<Rightarrow>
          (case findOne E [] (groups ent) (QEq ''id'' (JStr ident)) of
             Inl e \<Rightarrow> (Inl e, cfg)
           | Inr None \<Rightarrow> (Inl (notFound ''modifyGroup'' ''group'' ident), cfg)
           | Inr (Some (i, group')) \<Rightarrow>
               (case advanceMeta E ''group'' now (mergeProps group' scimdata) of
                  (Some err, group2) \<Rightarrow>
                    (Inl err, setGroups cfg baseEntity ent ((groups ent)[i := group2]))
                | (None, group2) \<Rightarrow>
                    (case updateDoc groupsUnique (groups ent) ms i group2 of
                       (Some err, data, group3) \<Rightarrow> (Inl err, setGroups cfg baseEntity ent data)
                     | (None, data, group3) \<Rightarrow> (Inr group3, setGroups cfg baseEntity ent data)))))"

text \<open>
  \<^verbatim>\<open>if (scimdata.k !== undefined) entitlement.k = scimdata.k\<close>, for the three properties
  an entitlement update may carry.
\<close>

definition assignDefined :: "obj \<Rightarrow> obj \<Rightarrow> string \<Rightarrow> obj" where
  "assignDefined target scimdata k =
     (if field scimdata k \<noteq> JUndefined then setProp target k (field scimdata k) else target)"

definition modifyEntitlement ::
  "engine \<Rightarrow> int \<Rightarrow> config \<Rightarrow> string \<Rightarrow> string \<Rightarrow> obj \<Rightarrow> (error + obj) \<times> config" where
  "modifyEntitlement E ms cfg baseEntity ident scimdata =
     (case cfg baseEntity of
        None \<Rightarrow> (Inl (unsupportedBaseEntity baseEntity), cfg)
      | Some ent \<Rightarrow>
          (case findOne E entitlementsIndices (entitlements ent) (QEq ''id'' (JStr ident)) of
             Inl e \<Rightarrow> (Inl e, cfg)
           | Inr None \<Rightarrow> (Inl (notFound ''modifyEntitlement'' ''entitlement'' ident), cfg)
           | Inr (Some (i, entitlement)) \<Rightarrow>
               (let entitlement1 =
                      assignDefined
                        (assignDefined (assignDefined entitlement scimdata ''displayName'')
                           scimdata ''type'')
                        scimdata ''description''
                in case updateDoc entitlementsUnique (entitlements ent) ms i entitlement1 of
                     (Some err, data, entitlement2) \<Rightarrow>
                       (Inl err, setEntitlements cfg baseEntity ent data)
                   | (None, data, entitlement2) \<Rightarrow>
                       (Inr entitlement2, setEntitlements cfg baseEntity ent data))))"

section \<open>The in-memory plugin\<close>

text \<open>
  \<^verbatim>\<open>EntitlementsPlugin.getEntitlements\<close> (\<^verbatim>\<open>plugin-entitlements.ts\<close>) filters the
  array it holds itself and pages the same way. \<^verbatim>\<open>includes\<close>, \<^verbatim>\<open>startsWith\<close> and
  \<^verbatim>\<open>endsWith\<close> coerce their argument to a string and throw on a regular expression.
\<close>

fun strIncludes :: "string \<Rightarrow> string \<Rightarrow> bool" where
  "strIncludes [] pat = (pat = [])"
| "strIncludes (c # cs) pat = (take (length pat) (c # cs) = pat \<or> strIncludes cs pat)"

definition startsWith :: "string \<Rightarrow> string \<Rightarrow> bool" where
  "startsWith s pat = (take (length pat) s = pat)"

definition endsWith :: "string \<Rightarrow> string \<Rightarrow> bool" where
  "endsWith s pat = (length pat \<le> length s \<and> drop (length s - length pat) s = pat)"

definition isRegExp :: "jsval \<Rightarrow> bool" where
  "isRegExp v = (case v of JRegExp p f \<Rightarrow> True | _ \<Rightarrow> False)"

definition matchesFilter :: "getObj \<Rightarrow> obj \<Rightarrow> error + bool" where
  "matchesFilter g entitlement =
     (let v = field entitlement (asKey (attribute g))
      in if operator g = Some ''eq'' then Inr (strictEq v (fvalue g))
         else if operator g = Some ''ne'' then Inr (\<not> strictEq v (fvalue g))
         else if operator g \<in> {Some ''co'', Some ''sw'', Some ''ew''} \<and> isRegExp (fvalue g) then
           Inl (typeError ''First argument must not be a regular expression'')
         else if operator g = Some ''co'' then Inr (strIncludes (toStr v) (toStr (fvalue g)))
         else if operator g = Some ''sw'' then Inr (startsWith (toStr v) (toStr (fvalue g)))
         else if operator g = Some ''ew'' then Inr (endsWith (toStr v) (toStr (fvalue g)))
         else Inr True)"

fun filterE :: "(obj \<Rightarrow> error + bool) \<Rightarrow> obj list \<Rightarrow> error + obj list" where
  "filterE P [] = Inr []"
| "filterE P (d # ds) =
     (case P d of
        Inl err \<Rightarrow> Inl err
      | Inr b \<Rightarrow>
          (case filterE P ds of
             Inl err \<Rightarrow> Inl err
           | Inr r \<Rightarrow> Inr (if b then d # r else r)))"

definition EntitlementsPlugin_getEntitlements :: "obj list \<Rightarrow> getObj \<Rightarrow> error + result" where
  "EntitlementsPlugin_getEntitlements ents g =
     (case (if given (attribute g) \<and> given (operator g) \<and> truthy (fvalue g)
            then filterE (matchesFilter g) ents else Inr ents) of
        Inl err \<Rightarrow> Inl err
      | Inr filteredEntitlements \<Rightarrow> Inr (paginate g filteredEntitlements))"

section \<open>The load handler\<close>

text \<open>
  The entitlements the load handler inserts when persistence is off
  (\<^verbatim>\<open>testEntitlements\<close>), and the grants it gives the two test users.
\<close>

definition testEntitlement :: "string \<Rightarrow> string \<Rightarrow> string \<Rightarrow> string \<Rightarrow> obj" where
  "testEntitlement i n t d =
     [(''id'', JStr i), (''displayName'', JStr n), (''type'', JStr t), (''description'', JStr d)]"

definition testEntitlements :: "obj list" where
  "testEntitlements =
     [testEntitlement ''entitlement-123'' ''Pro License'' ''License''
        ''Professional license with full features'',
      testEntitlement ''entitlement-456'' ''Basic License'' ''License''
        ''Basic license with limited features'',
      testEntitlement ''entitlement-789'' ''Admin Access'' ''Permission''
        ''Administrative access to the system'',
      testEntitlement ''entitlement-abc'' ''Premium Support'' ''Support''
        ''Premium customer support access'']"

definition grant :: "string \<Rightarrow> string \<Rightarrow> string \<Rightarrow> obj" where
  "grant v d t = [(''value'', JStr v), (''display'', JStr d), (''type'', JStr t)]"

definition bjensenGrants :: "jsval list" where
  "bjensenGrants =
     [JObj (grant ''entitlement-123'' ''Pro License'' ''License'' @ [(''primary'', JBool True)]),
      JObj (grant ''entitlement-789'' ''Admin Access'' ''Permission'')]"

definition jsmithGrants :: "jsval list" where
  "jsmithGrants =
     [JObj (grant ''entitlement-456'' ''Basic License'' ''License'' @ [(''primary'', JBool True)])]"

text \<open>
  \<^verbatim>\<open>loadHandler\<close> with persistence off. The test users and groups come from the gateway
  (\<^verbatim>\<open>getTestModeUsers\<close>, \<^verbatim>\<open>getTestModeGroups\<close>), which is not among the source files:
  they are parameters. Each record is copied, loses a truthy \<^verbatim>\<open>meta\<close> and is inserted
  into a fresh collection, whose counter starts at 1; then the test entitlements are
  inserted; then the two test users are looked up by login name and given their grants with
  \<^verbatim>\<open>update\<close>. The store's clock is held at one reading \<open>ms\<close> for the load.
\<close>

definition stripMeta :: "obj \<Rightarrow> obj" where
  "stripMeta r = (if truthy (field r ''meta'') then delProp r ''meta'' else r)"

fun insertEach :: "string list \<Rightarrow> int \<Rightarrow> obj list \<Rightarrow> int \<Rightarrow> obj list \<Rightarrow> error + obj list" where
  "insertEach uniq ms data loki [] = Inr data"
| "insertEach uniq ms data loki (r # rs) =
     (case insertDoc uniq data loki ms r of
        Inl e \<Rightarrow> Inl e
      | Inr (data', stored) \<Rightarrow> insertEach uniq ms data' (loki + 1) rs)"

definition setGrants :: "engine \<Rightarrow> int \<Rightarrow> obj list \<Rightarrow> string \<Rightarrow> jsval list \<Rightarrow> error + obj list" where
  "setGrants E ms data name gs =
     (case findOne E [] data (QEq ''userName'' (JStr name)) of
        Inl e \<Rightarrow> Inl e
      | Inr None \<Rightarrow> Inr data
      | Inr (Some (i, user)) \<Rightarrow>
          (case updateDoc usersUnique data ms i (setProp user ''entitlements'' (JArr gs)) of
             (Some e, data', user') \<Rightarrow> Inl e
           | (None, data', user') \<Rightarrow> Inr data'))"

definition loadHandler :: "engine \<Rightarrow> int \<Rightarrow> obj list \<Rightarrow> obj list \<Rightarrow> error + entity" where
  "loadHandler E ms testUsers testGroups =
     (case insertEach usersUnique ms [] 1 (map (\<lambda>record. stripMeta (copyObj record)) testUsers) of
        Inl e \<Rightarrow> Inl e
      | Inr us \<Rightarrow>
     (case insertEach groupsUnique ms [] 1 (map (\<lambda>record. stripMeta (copyObj record)) testGroups) of
        Inl e \<Rightarrow> Inl e
      | Inr gs \<Rightarrow>
     (case insertEach entitlementsUnique ms [] 1 testEntitlements of
        Inl e \<Rightarrow> Inl e
      | Inr es \<Rightarrow>
     (case setGrants E ms us ''bjensen'' bjensenGrants of
        Inl e \<Rightarrow> Inl e
      | Inr us1 \<Rightarrow>
     (case setGrants E ms us1 ''jsmith'' jsmithGrants of
        Inl e \<Rightarrow> Inl e
      | Inr us2 \<Rightarrow> Inr \<lparr>users = us2, groups = gs, entitlements = es\<rparr>)))))"

section \<open>Sample data and a reference engine\<close>

text \<open>
  A reference engine for the examples. It evaluates the one pattern shape whose meaning
  does not depend on the regular-expression language: \<^verbatim>\<open>^lit$\<close> with the flag
  \<^verbatim>\<open>i\<close>, where \<open>lit\<close> is made of letters, digits, spaces and hyphens only, which is
  equality of the two strings up to the case of ASCII letters. It accepts the patterns
  \<^verbatim>\<open>^lit.*\<close> and \<^verbatim>\<open>.*lit$\<close> as well formed and declines every other query. Its binary
  index lists the positions in ascending order, which is the index of a property whose values
  were inserted in ascending order without repetition, as the identifiers of the test
  entitlements are; the examples query no other index. They never reach \<open>bigSucc\<close> either,
  for which it prints nothing.
\<close>

definition lowerChar :: "char \<Rightarrow> char" where
  "lowerChar c =
     (case map_of (zip ''ABCDEFGHIJKLMNOPQRSTUVWXYZ'' ''abcdefghijklmnopqrstuvwxyz'') c of
        None \<Rightarrow> c
      | Some l \<Rightarrow> l)"

definition toLowerCase :: "string \<Rightarrow> string" where
  "toLowerCase s = map lowerChar s"

definition plainChar :: "char \<Rightarrow> bool" where
  "plainChar c =
     (c \<in> set ''ABCDEFGHIJKLMNOPQRSTUVWXYZabcdefghijklmnopqrstuvwxyz0123456789 -'')"

definition anchoredLiteral :: "string \<Rightarrow> string option" where
  "anchoredLiteral p =
     (if 2 \<le> length p \<and> take 1 p = ''^'' \<and> drop (length p - 1) p = ''$''
         \<and> list_all plainChar (take (length p - 2) (drop 1 p))
      then Some (take (length p - 2) (drop 1 p)) else None)"

definition refRegexpOk :: "string \<Rightarrow> bool" where
  "refRegexpOk p =
     (3 \<le> length p \<and>
      ((take 1 p = ''^'' \<and> drop (length p - 2) p = ''.*''
          \<and> list_all plainChar (take (length p - 3) (drop 1 p)))
       \<or> (take 2 p = ''.*'' \<and> drop (length p - 1) p = ''$''
          \<and> list_all plainChar (take (length p - 3) (drop 2 p)))))"

definition refCompile :: "query \<Rightarrow> error + (obj \<Rightarrow> bool)" where
  "refCompile q =
     (case q of
        QOp a op (JArr [JStr p, JStr f]) \<Rightarrow>
          (case anchoredLiteral p of
             Some lit \<Rightarrow>
               if op = ''$regex'' \<and> f = ''i''
               then Inr (\<lambda>d. toLowerCase (toStr (field d a)) = toLowerCase lit)
               else Inl (Err ''Error'' ''query outside the reference engine'')
           | None \<Rightarrow> Inl (Err ''Error'' ''query outside the reference engine''))
      | _ \<Rightarrow> Inl (Err ''Error'' ''query outside the reference engine''))"

definition refEngine :: engine where
  "refEngine = \<lparr>regexpOk = refRegexpOk, compile = refCompile,
                  binaryIndex = (\<lambda>a data. [0..<length data]), bigSucc = (\<lambda>k. [])\<rparr>"

text \<open>
  Two test users with the identifiers and login names of the gateway's, and the tenant
  \<^verbatim>\<open>loki\<close> as the load handler leaves it for them with the store's clock at
  \<open>sampleClock\<close>: every document carries the \<^verbatim>\<open>meta\<close> and the \<^verbatim>\<open>$loki\<close> the store
  gave it, and the two users the \<^verbatim>\<open>meta\<close> of one update.
\<close>

definition testUsers :: "obj list" where
  "testUsers =
     [[(''id'', JStr ''bjensen''), (''userName'', JStr ''bjensen'')],
      [(''id'', JStr ''jsmith''), (''userName'', JStr ''jsmith'')]]"

definition sampleClock :: int where
  "sampleClock = 1700000000000"

definition inserted :: "obj \<Rightarrow> int \<Rightarrow> obj" where
  "inserted body n =
     body @ [(''meta'', JObj [(''revision'', JNum 0), (''created'', JNum sampleClock),
                              (''version'', JNum 0)]),
             (''$loki'', JNum n)]"

definition updated :: "obj \<Rightarrow> int \<Rightarrow> obj" where
  "updated body n =
     body @ [(''meta'', JObj [(''revision'', JNum 1), (''created'', JNum sampleClock),
                              (''version'', JNum 0), (''updated'', JNum sampleClock)]),
             (''$loki'', JNum n)]"

definition bjensen :: obj where
  "bjensen = updated (testUsers ! 0) 1 @ [(''entitlements'', JArr bjensenGrants)]"

definition jsmith :: obj where
  "jsmith = updated (testUsers ! 1) 2 @ [(''entitlements'', JArr jsmithGrants)]"

definition storedEntitlements :: "obj list" where
  "storedEntitlements =
     [inserted (testEntitlements ! 0) 1, inserted (testEntitlements ! 1) 2,
      inserted (testEntitlements ! 2) 3, inserted (testEntitlements ! 3) 4]"

definition sampleEntity :: entity where
  "sampleEntity = \<lparr>users = [bjensen, jsmith], groups = [], entitlements = storedEntitlements\<rparr>"

definition sampleConfig :: config where
  "sampleConfig = Map.empty(''loki'' \<mapsto> sampleEntity)"

definition noFilter :: getObj where
  "noFilter = \<lparr>attribute = None, operator = None, fvalue = JUndefined, rawFilter = None,
                startIndex = None, count = None\<rparr>"

section \<open>Notions of the specification\<close>

text \<open>
  The zero-based window \<open>[lo, hi)\<close> of a list, in the words of the specification: the
  elements whose index \<open>i\<close> satisfies \<open>lo \<le> i < hi\<close>, in order.
\<close>

definition window :: "'a list \<Rightarrow> int \<Rightarrow> int \<Rightarrow> 'a list" where
  "window xs lo hi = map snd (filter (\<lambda>(i, x). lo \<le> int i \<and> int i < hi) (enumerate 0 xs))"

text \<open>
  The documents the filter of a query selects, before paging, in the order in which the
  store returns them: what the operator conversion and the "if-else logic" compute from the
  query as it arrives.
\<close>

definition matched ::
  "engine \<Rightarrow> string \<Rightarrow> string list \<Rightarrow> string option \<Rightarrow> string list \<Rightarrow> obj list \<Rightarrow> getObj
     \<Rightarrow> error + obj list" where
  "matched E action uniq mem idx data g =
     (case convertOperator E action g of
        (Some e, g') \<Rightarrow> Inl e
      | (None, g') \<Rightarrow> selectDocs E action uniq mem idx data g')"

text \<open>
  The operator table of the specification (4.1): \<^verbatim>\<open>co\<close>, \<^verbatim>\<open>ge\<close>, \<^verbatim>\<open>le\<close> have their
  own native names, \<^verbatim>\<open>sw\<close> and \<^verbatim>\<open>ew\<close> become pattern matches on an anchored pattern,
  and an operator of the store's own list passes through with the marker \<^verbatim>\<open>$\<close>. Every other
  operator is invalid.
\<close>

definition nativeOperator :: "string \<Rightarrow> string" where
  "nativeOperator op =
     (if op = ''co'' then ''$contains''
      else if op = ''ge'' then ''$gte''
      else if op = ''le'' then ''$lte''
      else if op = ''sw'' \<or> op = ''ew'' then ''$regex''
      else ''$'' @ op)"

definition anchoredPattern :: "string \<Rightarrow> jsval \<Rightarrow> string" where
  "anchoredPattern op v = (if op = ''sw'' then ''^'' @ toStr v @ ''.*'' else ''.*'' @ toStr v @ ''$'')"

definition translatable :: "string \<Rightarrow> bool" where
  "translatable op = (op \<in> set [''co'', ''ge'', ''le'', ''sw'', ''ew''] \<or> op \<in> set validFilterOperators)"

text \<open>The users of a tenant; none when the tenant is unknown.\<close>

definition usersOf :: "config \<Rightarrow> string \<Rightarrow> obj list" where
  "usersOf cfg b = (case cfg b of None \<Rightarrow> [] | Some ent \<Rightarrow> users ent)"

text \<open>
  No two documents of a collection have the same login name, compared as the store compares
  it (strict equality, so case matters).
\<close>

fun uniqueLogins :: "obj list \<Rightarrow> bool" where
  "uniqueLogins [] = True"
| "uniqueLogins (d # ds) =
     (list_all (\<lambda>e. \<not> strictEq (field d ''userName'') (field e ''userName'')) ds \<and> uniqueLogins ds)"

text \<open>
  A run of \<^verbatim>\<open>createUser\<close> calls, each with its tenant, the identifier and the two clock
  readings it is given, the number and the clock reading of the store, and its payload;
  failed calls leave the configuration as it was.
\<close>

fun createAll ::
  "engine \<Rightarrow> config \<Rightarrow> (string \<times> string \<times> string \<times> string \<times> int \<times> int \<times> obj) list \<Rightarrow> config" where
  "createAll E cfg [] = cfg"
| "createAll E cfg ((baseEntity, uuid, t1, t2, loki, ms, scimdata) # rest) =
     createAll E (snd (createUser E uuid t1 t2 loki ms cfg baseEntity scimdata)) rest"

text \<open>
  The grants of a user: the elements of \<^verbatim>\<open>user.entitlements\<close> when that is an array.
  The grants are well formed when \<^verbatim>\<open>user.entitlements\<close> is absent (or otherwise falsy) or
  an array of objects, as the data model of the specification has it.
\<close>

definition grantsOf :: "obj \<Rightarrow> jsval list" where
  "grantsOf user = (case field user ''entitlements'' of JArr gs \<Rightarrow> gs | _ \<Rightarrow> [])"

definition isObject :: "jsval \<Rightarrow> bool" where
  "isObject v = (case v of JObj ob \<Rightarrow> True | _ \<Rightarrow> False)"

definition wellFormedGrants :: "obj \<Rightarrow> bool" where
  "wellFormedGrants user =
     (case field user ''entitlements'' of
        JArr gs \<Rightarrow> list_all isObject gs
      | v \<Rightarrow> \<not> truthy v)"

definition hasGrant :: "obj \<Rightarrow> string \<Rightarrow> bool" where
  "hasGrant user v = list_ex (\<lambda>g. readProp g ''value'' = JStr v) (grantsOf user)"

definition grantCount :: "obj \<Rightarrow> string \<Rightarrow> nat" where
  "grantCount user v = length (filter (\<lambda>g. readProp g ''value'' = JStr v) (grantsOf user))"

text \<open>The weak version tag \<^verbatim>\<open>W/"n"\<close>.\<close>

definition versionTag :: "int \<Rightarrow> string" where
  "versionTag n = ''W/'' @ dquote @ numToString n @ dquote"

subsection \<open>Sample queries, payloads and states\<close>

definition byUserName :: getObj where
  "byUserName = noFilter\<lparr>attribute := Some ''userName'', operator := Some ''eq'', fvalue := JStr ''bjensen''\<rparr>"

definition byType :: getObj where
  "byType = noFilter\<lparr>attribute := Some ''type'', operator := Some ''eq'', fvalue := JStr ''license''\<rparr>"

definition byId :: getObj where
  "byId = noFilter\<lparr>attribute := Some ''id'', operator := Some ''eq'', fvalue := JStr ''entitlement-789''\<rparr>"

definition compound :: getObj where
  "compound = noFilter\<lparr>rawFilter := Some ''userName sw b and active eq true''\<rparr>"

definition alice :: obj where
  "alice = [(''userName'', JStr ''alice''), (''active'', JBool True)]"

text \<open>
  The call that creates \<open>alice\<close> on the sample tenant: the gateway's identifier is
  \<^verbatim>\<open>u3\<close>, the plugin reads the clock twice within one millisecond, and the store gives
  its third user the number 3, half a second after the load.
\<close>

definition createAlice :: "(error + obj) \<times> config" where
  "createAlice =
     createUser refEngine ''u3'' ''2023-11-14T22:13:20.500Z'' ''2023-11-14T22:13:20.500Z''
       3 (sampleClock + 500) sampleConfig ''loki'' alice"

text \<open>The same for a group, the first of the tenant.\<close>

definition admins :: obj where
  "admins = [(''displayName'', JStr ''Admins'')]"

definition createAdmins :: "(error + obj) \<times> config" where
  "createAdmins =
     createGroup refEngine ''g1'' ''2023-11-14T22:13:20.500Z'' ''2023-11-14T22:13:20.500Z''
       1 (sampleClock + 500) sampleConfig ''loki'' admins"

text \<open>Entries of a patch.\<close>

definition addEntry :: obj where
  "addEntry = [(''value'', JStr ''entitlement-456''), (''operation'', JStr ''add'')]"

definition removeEntry :: obj where
  "removeEntry = [(''value'', JStr ''entitlement-456''), (''operation'', JStr ''remove'')]"

definition addExisting :: obj where
  "addExisting = [(''value'', JStr ''entitlement-123''), (''operation'', JStr ''add''),
                  (''display'', JStr ''Pro'')]"

definition patchData :: obj where
  "patchData = [(''entitlements'', JArr [JObj addEntry, JObj removeEntry, JObj addEntry]),
                (''active'', JBool False)]"


definition addNamed :: obj where
  "addNamed = [(''value'', JStr ''entitlement-abc''), (''operation'', JStr ''add''),
               (''display'', JStr ''Support''), (''type'', JStr ''Service''), (''primary'', JBool True)]"
section \<open>Properties\<close>

subsection \<open>Sample data\<close>

lemma storedEntitlements_length: "length storedEntitlements = 4"
  by (simp add: storedEntitlements_def)

lemma sampleConfig_loki: "sampleConfig ''loki'' = Some sampleEntity"
  by (simp add: sampleConfig_def)

subsection \<open>Values and objects\<close>

lemma strictEq_JStr [simp]: "strictEq v (JStr s) \<longleftrightarrow> v = JStr s"
  by (cases v) auto

lemma strictEq_primitive: "isPrimitive v \<Longrightarrow> v \<noteq> JNaN \<Longrightarrow> strictEq w v \<longleftrightarrow> w = v"
  by (cases v; cases w) auto

lemma strictEq_not_primitive: "\<not> isPrimitive v \<Longrightarrow> \<not> strictEq w v"
  by (cases v; cases w) auto

lemma field_setProp: "field (setProp ob k v) k' = (if k' = k then v else field ob k')"
  by (simp add: field_def setProp_def update_conv')

lemma setProp_same: "field ob k = v \<Longrightarrow> v \<noteq> JUndefined \<Longrightarrow> setProp ob k v = ob"
  by (auto simp: field_def setProp_def split: option.splits intro: update_triv)

lemma setProp_twice: "setProp (setProp ob k v) k w = setProp ob k w"
  by (simp add: setProp_def)

lemma field_foldl_merge:
  "field (foldl (\<lambda>u key. if key \<noteq> ''id'' \<and> key \<noteq> ''meta'' then setProp u key (field s key) else u) u ks) k
     = (if k \<in> set ks \<and> k \<noteq> ''id'' \<and> k \<noteq> ''meta'' then field s k else field u k)"
  by (induction ks arbitrary: u) (auto simp: field_setProp)

lemma field_mergeProps:
  "field (mergeProps u s) k
     = (if k \<in> set (keys s) \<and> k \<noteq> ''id'' \<and> k \<noteq> ''meta'' then field s k else field u k)"
  unfolding mergeProps_def by (rule field_foldl_merge)

lemma mergeProps_meta: "field (mergeProps u s) ''meta'' = field u ''meta''"
  by (simp add: field_mergeProps)

lemma keys_delProp: "k \<notin> set (keys (delProp s k))"
  by (simp add: keys_def delProp_def delete_keys)

subsection \<open>The store\<close>

lemma firstMatch_None_iff: "firstMatch P ds = None \<longleftrightarrow> (\<forall>d\<in>set ds. \<not> P d)"
  by (induction ds) auto

lemma firstMatch_Some:
  "firstMatch P ds = Some (i, d) \<Longrightarrow> i < length ds \<and> ds ! i = d \<and> P d"
  by (induction ds arbitrary: i) (auto split: if_splits)

lemma firstMatch_exists: "\<exists>d\<in>set ds. P d \<Longrightarrow> \<exists>m. firstMatch P ds = Some m"
  using firstMatch_None_iff [of P ds] by (cases "firstMatch P ds") auto

lemma predicate_id [simp]:
  "predicate E (QEq ''id'' (JStr i)) = Inr (\<lambda>d. strictEq (field d ''id'') (JStr i))"
  by (simp add: predicate_def isPath_def)

lemma usesIndex_Nil [simp]: "usesIndex [] q = False"
  by (simp add: usesIndex_def)

lemma firstAt_None: "\<forall>i\<in>set js. \<not> P (data ! i) \<Longrightarrow> firstAt P data js = None"
  by (induction js) auto

lemma findOne_id_absent:
  assumes "JStr i \<notin> set (map (\<lambda>d. field d ''id'') data)"
  shows "findOne E idx data (QEq ''id'' (JStr i)) = Inr None"
proof -
  have none: "\<forall>d\<in>set data. field d ''id'' \<noteq> JStr i"
    using assms by (auto simp: image_iff)
  have a: "firstMatch (\<lambda>d. field d ''id'' = JStr i) data = None"
    using none by (simp add: firstMatch_None_iff)
  have b: "firstAt (\<lambda>d. field d ''id'' = JStr i) data (indexPositions E a data) = None" for a
    by (rule firstAt_None) (use none in \<open>auto simp: indexPositions_def\<close>)
  show ?thesis by (simp add: findOne_def a b)
qed

lemma findOne_id:
  "findOne E [] data (QEq ''id'' (JStr i)) = Inr (firstMatch (\<lambda>d. field d ''id'' = JStr i) data)"
  by (simp add: findOne_def)

lemma findOne_userName:
  "findOne E [] data (QEq ''userName'' (JStr n))
     = Inr (firstMatch (\<lambda>d. field d ''userName'' = JStr n) data)"
  by (simp add: findOne_def predicate_def isPath_def)

lemma findOne_None_userName:
  assumes "findOne E [] data (QEq ''userName'' v) = Inr None"
  shows "list_all (\<lambda>d. \<not> strictEq (field d ''userName'') v) data"
proof (cases "isPrimitive v")
  case True
  then have "firstMatch (\<lambda>d. strictEq (field d ''userName'') v) data = None"
    using assms by (simp add: findOne_def predicate_def isPath_def)
  then show ?thesis by (simp add: firstMatch_None_iff list_all_iff)
next
  case False
  then show ?thesis by (simp add: strictEq_not_primitive list_all_iff)
qed

subsection \<open>Windows and slices\<close>

lemma window_take_drop_aux:
  "0 \<le> lo \<Longrightarrow>
   map snd (filter (\<lambda>(i, x). int n + lo \<le> int i \<and> int i < int n + hi) (enumerate n xs))
     = take (nat (hi - lo)) (drop (nat lo) xs)"
proof (induction xs arbitrary: n lo hi)
  case Nil
  then show ?case by simp
next
  case (Cons x xs)
  let ?P = "\<lambda>(i, x). int n + lo \<le> int i \<and> int i < int n + hi"
  show ?case
  proof (cases "lo = 0")
    case True
    show ?thesis
    proof (cases "0 < hi")
      case h: True
      let ?Q = "\<lambda>(i, x). int (Suc n) + 0 \<le> int i \<and> int i < int (Suc n) + (hi - 1)"
      have ih: "map snd (filter ?Q (enumerate (Suc n) xs)) = take (nat ((hi - 1) - 0)) (drop (nat 0) xs)"
        by (rule Cons.IH) simp
      have same: "filter ?P (enumerate (Suc n) xs) = filter ?Q (enumerate (Suc n) xs)"
        using True by (intro filter_cong refl) (auto simp: in_set_enumerate_eq)
      have "map snd (filter ?P (enumerate n (x # xs))) = x # map snd (filter ?P (enumerate (Suc n) xs))"
        using True h by simp
      also have "\<dots> = x # take (nat (hi - 1)) xs"
        unfolding same ih by simp
      also have "\<dots> = take (nat (hi - lo)) (drop (nat lo) (x # xs))"
      proof -
        have "nat hi = Suc (nat (hi - 1))" using h by simp
        then show ?thesis using True by simp
      qed
      finally show ?thesis .
    next
      case h: False
      have "filter ?P (enumerate (Suc n) xs) = []"
        using h by (auto simp: filter_empty_conv in_set_enumerate_eq)
      then show ?thesis using True h by simp
    qed
  next
    case False
    with Cons.prems have pos: "0 < lo" by simp
    let ?Q = "\<lambda>(i, x). int (Suc n) + (lo - 1) \<le> int i \<and> int i < int (Suc n) + (hi - 1)"
    have ih: "map snd (filter ?Q (enumerate (Suc n) xs))
            = take (nat ((hi - 1) - (lo - 1))) (drop (nat (lo - 1)) xs)"
      by (rule Cons.IH) (use pos in simp)
    have same: "filter ?P (enumerate (Suc n) xs) = filter ?Q (enumerate (Suc n) xs)"
      by (intro filter_cong refl) auto
    have "map snd (filter ?P (enumerate n (x # xs))) = map snd (filter ?P (enumerate (Suc n) xs))"
      using pos by simp
    also have "\<dots> = take (nat (hi - lo)) (drop (nat (lo - 1)) xs)"
      unfolding same ih by simp
    also have "\<dots> = take (nat (hi - lo)) (drop (nat lo) (x # xs))"
    proof -
      have "nat lo = Suc (nat (lo - 1))" using pos by simp
      then show ?thesis by simp
    qed
    finally show ?thesis .
  qed
qed

lemma window_take_drop: "0 \<le> lo \<Longrightarrow> window xs lo hi = take (nat (hi - lo)) (drop (nat lo) xs)"
  using window_take_drop_aux [of lo 0 hi xs] by (simp add: window_def)

lemma slice_window: "0 \<le> s \<Longrightarrow> 0 \<le> e \<Longrightarrow> slice xs s e = window xs s e"
  unfolding slice_def Let_def window_take_drop
  by (auto simp: min_def max_def nat_diff_distrib')


lemma length_slice: "length (slice xs s e) \<le> length xs"
proof -
  have "length (take n (drop k xs)) \<le> length xs" for n k by simp
  then show ?thesis unfolding slice_def Let_def .
qed

subsection \<open>The operator conversion\<close>

lemma convertOperator_snd:
  "attribute (snd (convertOperator E action g)) = attribute g"
  "rawFilter (snd (convertOperator E action g)) = rawFilter g"
  "startIndex (snd (convertOperator E action g)) = startIndex g"
  "count (snd (convertOperator E action g)) = count g"
  by (simp_all add: convertOperator_def Let_def split: option.splits)

lemma convertOperator_frame:
  assumes "convertOperator E action g = (x, g')"
  shows "attribute g' = attribute g \<and> rawFilter g' = rawFilter g
       \<and> startIndex g' = startIndex g \<and> count g' = count g"
  using convertOperator_snd [of E action g] assms by simp

lemma convertOperator_no_operator:
  "\<not> given (operator g) \<Longrightarrow> convertOperator E action g = (None, g)"
  by (simp add: convertOperator_def given_def split: option.splits)

lemma convertOperator_value_snd:
  "operator g \<noteq> Some ''sw'' \<Longrightarrow> operator g \<noteq> Some ''ew'' \<Longrightarrow>
   fvalue (snd (convertOperator E action g)) = fvalue g"
  by (simp add: convertOperator_def Let_def split: option.splits)

lemma convertOperator_value:
  assumes "convertOperator E action g = (x, g')" "operator g \<noteq> Some ''sw''" "operator g \<noteq> Some ''ew''"
  shows "fvalue g' = fvalue g"
  using convertOperator_value_snd [OF assms(2,3), of E action] assms(1) by simp

lemma convertOperator_valid:
  assumes "op \<in> set validFilterOperators" "operator g = Some op"
  shows "convertOperator E action g = (None, g\<lparr>operator := Some (''$'' @ op)\<rparr>)"
proof -
  have "op \<noteq> []" "op \<noteq> ''co''" "op \<noteq> ''ge''" "op \<noteq> ''le''" "op \<noteq> ''sw''" "op \<noteq> ''ew''"
    using assms(1) by (auto simp: validFilterOperators_def)
  then show ?thesis using assms by (simp add: convertOperator_def)
qed

lemma convertOperator_native:
  assumes "operator g = Some op" "translatable op"
  shows "operator (snd (convertOperator E action g)) = Some (nativeOperator op)"
proof -
  have ne: "op \<noteq> []" using assms(2) by (auto simp: translatable_def validFilterOperators_def)
  show ?thesis
    using assms ne
    by (auto simp: convertOperator_def nativeOperator_def translatable_def Let_def)
qed

lemma convertOperator_pattern:
  assumes "operator g = Some op" "op = ''sw'' \<or> op = ''ew''"
    "regexpOk E (anchoredPattern op (fvalue g))"
  shows "convertOperator E action g
           = (None, g\<lparr>operator := Some ''$regex'', fvalue := JRegExp (anchoredPattern op (fvalue g)) []\<rparr>)"
  using assms by (auto simp: convertOperator_def anchoredPattern_def Let_def)

lemma convertOperator_invalid:
  assumes "operator g = Some op" "op \<noteq> []" "\<not> translatable op"
  shows "convertOperator E action g = (Some (invalidFilter action op), g)"
  using assms by (simp add: convertOperator_def translatable_def)

lemma convertOperator_startIndex:
  "convertOperator E action (g\<lparr>startIndex := x\<rparr>) =
     (fst (convertOperator E action g), (snd (convertOperator E action g))\<lparr>startIndex := x\<rparr>)"
  by (simp add: convertOperator_def Let_def split: option.splits)

lemma convertOperator_count:
  "convertOperator E action (g\<lparr>count := x\<rparr>) =
     (fst (convertOperator E action g), (snd (convertOperator E action g))\<lparr>count := x\<rparr>)"
  by (simp add: convertOperator_def Let_def split: option.splits)

subsection \<open>Selection and paging\<close>

lemma selectDocs_startIndex:
  "selectDocs E action uniq mem idx data (g\<lparr>startIndex := x\<rparr>) = selectDocs E action uniq mem idx data g"
  by (auto simp: selectDocs_def)

lemma selectDocs_count:
  "selectDocs E action uniq mem idx data (g\<lparr>count := x\<rparr>) = selectDocs E action uniq mem idx data g"
  by (auto simp: selectDocs_def)

lemma selectDocs_rawFilter:
  "\<not> given (operator g) \<Longrightarrow> rawFilter g = Some raw \<Longrightarrow> raw \<noteq> [] \<Longrightarrow>
   selectDocs E action uniq mem idx data g = Inl (advancedFiltering action (Some raw))"
  by (simp add: selectDocs_def given_def)

lemma paginate_frame:
  "startIndex g' = startIndex g \<Longrightarrow> count g' = count g \<Longrightarrow> paginate g' arr = paginate g arr"
  by (simp add: paginate_def)

lemma paginate_startIndex_zero:
  "paginate (g\<lparr>startIndex := Some 0\<rparr>) arr = paginate (g\<lparr>startIndex := None\<rparr>) arr"
  by (simp add: paginate_def orDefault_def)

lemma paginate_count_zero:
  "paginate (g\<lparr>count := Some 0\<rparr>) arr = paginate (g\<lparr>count := None\<rparr>) arr"
  by (simp add: paginate_def orDefault_def)

lemma paginate_window:
  assumes "0 \<le> max 0 (orDefault (startIndex g) 1 - 1) + orDefault (count g) 100"
  shows "paginate g arr =
     \<lparr>Resources = window arr (max 0 (orDefault (startIndex g) 1 - 1))
          (max 0 (orDefault (startIndex g) 1 - 1) + orDefault (count g) 100),
      totalResults = length arr\<rparr>"
  using assms by (simp add: paginate_def Let_def slice_window)

lemma paginate_bounds:
  "totalResults (paginate g arr) = length arr \<and> length (Resources (paginate g arr)) \<le> length arr"
  by (simp add: paginate_def Let_def length_slice)

lemma matched_noFilter: "\<not> given (operator g) \<Longrightarrow> \<not> given (rawFilter g) \<Longrightarrow> matched E action uniq mem idx data g = Inr data"
  by (simp add: matched_def convertOperator_no_operator selectDocs_def)

lemma runQuery_matched:
  assumes "matched E action uniq mem idx data g = Inr arr"
  shows "fst (runQuery E action uniq mem idx data g) = Inr (paginate g arr)"
proof (cases "convertOperator E action g")
  case (Pair x g')
  show ?thesis
  proof (cases x)
    case None
    have s: "selectDocs E action uniq mem idx data g' = Inr arr"
      using assms Pair None unfolding matched_def by simp
    have "paginate g' arr = paginate g arr"
      using convertOperator_frame [OF Pair] by (intro paginate_frame) simp_all
    then show ?thesis using s by (simp add: runQuery_def Pair None)
  next
    case (Some e)
    then show ?thesis using assms Pair unfolding matched_def by simp
  qed
qed

lemma runQuery_startIndex_zero:
  "fst (runQuery E action uniq mem idx data (g\<lparr>startIndex := Some 0\<rparr>)) =
   fst (runQuery E action uniq mem idx data (g\<lparr>startIndex := None\<rparr>))"
  by (simp add: runQuery_def convertOperator_startIndex selectDocs_startIndex
      paginate_startIndex_zero split: prod.splits option.splits sum.splits)

lemma runQuery_count_zero:
  "fst (runQuery E action uniq mem idx data (g\<lparr>count := Some 0\<rparr>)) =
   fst (runQuery E action uniq mem idx data (g\<lparr>count := None\<rparr>))"
  by (simp add: runQuery_def convertOperator_count selectDocs_count
      paginate_count_zero split: prod.splits option.splits sum.splits)

lemma runQuery_rawFilter:
  "\<not> given (operator g) \<Longrightarrow> rawFilter g = Some raw \<Longrightarrow> raw \<noteq> [] \<Longrightarrow>
   runQuery E action uniq mem idx data g = (Inl (advancedFiltering action (Some raw)), g)"
  by (simp add: runQuery_def convertOperator_no_operator selectDocs_rawFilter)

lemma runQuery_snd: "snd (runQuery E action uniq mem idx data g) = snd (convertOperator E action g)"
  by (simp add: runQuery_def split: prod.splits option.splits sum.splits)

lemma runQuery_frame:
  assumes "runQuery E action uniq mem idx data g = (r, g')"
  shows "attribute g' = attribute g \<and> rawFilter g' = rawFilter g
       \<and> startIndex g' = startIndex g \<and> count g' = count g
       \<and> (\<not> given (operator g) \<longrightarrow> g' = g)
       \<and> (operator g \<noteq> Some ''sw'' \<and> operator g \<noteq> Some ''ew'' \<longrightarrow> fvalue g' = fvalue g)
       \<and> (\<forall>op. operator g = Some op \<and> translatable op \<longrightarrow> operator g' = Some (nativeOperator op))
       \<and> (\<forall>op. operator g = Some op \<and> (op = ''sw'' \<or> op = ''ew'')
              \<and> regexpOk E (anchoredPattern op (fvalue g))
            \<longrightarrow> fvalue g' = JRegExp (anchoredPattern op (fvalue g)) [])
       \<and> (\<forall>op. operator g = Some op \<and> op \<noteq> [] \<and> \<not> translatable op \<longrightarrow> g' = g)"
proof -
  have g': "g' = snd (convertOperator E action g)"
    using runQuery_snd [of E action uniq mem idx data g] assms by simp
  obtain x where c: "convertOperator E action g = (x, g')"
    using g' by (cases "convertOperator E action g") simp
  have 1: "attribute g' = attribute g \<and> rawFilter g' = rawFilter g
       \<and> startIndex g' = startIndex g \<and> count g' = count g"
    by (rule convertOperator_frame [OF c])
  have 2: "g' = g" if "\<not> given (operator g)"
    using convertOperator_no_operator [OF that, of E action] c by simp
  have 3: "fvalue g' = fvalue g" if "operator g \<noteq> Some ''sw''" "operator g \<noteq> Some ''ew''"
    using convertOperator_value [OF c that] .
  have 4: "operator g' = Some (nativeOperator op)" if "operator g = Some op" "translatable op" for op
    using convertOperator_native [OF that, of E action] g' by simp
  have 5: "fvalue g' = JRegExp (anchoredPattern op (fvalue g)) []"
    if "operator g = Some op" "op = ''sw'' \<or> op = ''ew''" "regexpOk E (anchoredPattern op (fvalue g))" for op
    using convertOperator_pattern [OF that, of action] c by simp
  have 6: "g' = g" if "operator g = Some op" "op \<noteq> []" "\<not> translatable op" for op
    using convertOperator_invalid [OF that, of E action] c by simp
  show ?thesis using 1 2 3 4 5 6 by blast
qed

lemma matchesFilter_paging:
  "matchesFilter (g\<lparr>startIndex := x\<rparr>) = matchesFilter g"
  "matchesFilter (g\<lparr>count := y\<rparr>) = matchesFilter g"
  by (simp_all add: matchesFilter_def fun_eq_iff Let_def)



subsection \<open>Paging (claim C2)\<close>




subsection \<open>Zero as an absent parameter (claim C10)\<close>

text \<open>
  Claim C10. In every query function, of the store plugin and of the in-memory plugin, a
  \<^verbatim>\<open>startIndex\<close> of 0 gives the outcome of an absent \<^verbatim>\<open>startIndex\<close> and a \<^verbatim>\<open>count\<close>
  of 0 the outcome of an absent \<^verbatim>\<open>count\<close> (any query \<open>q\<close>, any collection). In
  particular an unfiltered query \<open>g\<close> with \<^verbatim>\<open>count = 0\<close> returns up to 100 documents from
  its start position, not an empty page.
\<close>

theorem zero_is_absent:
  assumes "cfg b = Some ent" and "\<not> given (operator g)" and "\<not> given (rawFilter g)"
    and "count g = Some 0"
  shows "fst (getUsers E cfg b (q\<lparr>startIndex := Some 0\<rparr>)) = fst (getUsers E cfg b (q\<lparr>startIndex := None\<rparr>))
       \<and> fst (getUsers E cfg b (q\<lparr>count := Some 0\<rparr>)) = fst (getUsers E cfg b (q\<lparr>count := None\<rparr>))
       \<and> fst (getGroups E cfg b (q\<lparr>startIndex := Some 0\<rparr>)) = fst (getGroups E cfg b (q\<lparr>startIndex := None\<rparr>))
       \<and> fst (getGroups E cfg b (q\<lparr>count := Some 0\<rparr>)) = fst (getGroups E cfg b (q\<lparr>count := None\<rparr>))
       \<and> fst (getEntitlements E cfg b (q\<lparr>startIndex := Some 0\<rparr>))
           = fst (getEntitlements E cfg b (q\<lparr>startIndex := None\<rparr>))
       \<and> fst (getEntitlements E cfg b (q\<lparr>count := Some 0\<rparr>))
           = fst (getEntitlements E cfg b (q\<lparr>count := None\<rparr>))
       \<and> EntitlementsPlugin_getEntitlements ents (q\<lparr>startIndex := Some 0\<rparr>)
           = EntitlementsPlugin_getEntitlements ents (q\<lparr>startIndex := None\<rparr>)
       \<and> EntitlementsPlugin_getEntitlements ents (q\<lparr>count := Some 0\<rparr>)
           = EntitlementsPlugin_getEntitlements ents (q\<lparr>count := None\<rparr>)
       \<and> fst (getUsers E cfg b g)
           = Inr \<lparr>Resources = take 100 (drop (nat (orDefault (startIndex g) 1 - 1)) (users ent)),
                  totalResults = length (users ent)\<rparr>
       \<and> fst (getGroups E cfg b g)
           = Inr \<lparr>Resources = take 100 (drop (nat (orDefault (startIndex g) 1 - 1)) (groups ent)),
                  totalResults = length (groups ent)\<rparr>
       \<and> fst (getEntitlements E cfg b g)
           = Inr \<lparr>Resources = take 100 (drop (nat (orDefault (startIndex g) 1 - 1)) (entitlements ent)),
                  totalResults = length (entitlements ent)\<rparr>
       \<and> EntitlementsPlugin_getEntitlements ents g
           = Inr \<lparr>Resources = take 100 (drop (nat (orDefault (startIndex g) 1 - 1)) ents),
                  totalResults = length ents\<rparr>"
proof -
  have pg: "paginate g arr = \<lparr>Resources = take 100 (drop (nat (orDefault (startIndex g) 1 - 1)) arr),
                  totalResults = length arr\<rparr>" for arr
    using assms(4) by (simp add: paginate_def orDefault_def slice_def Let_def min_def max_def)
  have u1: "fst (getUsers E cfg b (q\<lparr>startIndex := Some 0\<rparr>)) = fst (getUsers E cfg b (q\<lparr>startIndex := None\<rparr>))"
    using runQuery_startIndex_zero by (simp add: getUsers_def case_prod_beta split: option.splits)
  have u2: "fst (getUsers E cfg b (q\<lparr>count := Some 0\<rparr>)) = fst (getUsers E cfg b (q\<lparr>count := None\<rparr>))"
    using runQuery_count_zero by (simp add: getUsers_def case_prod_beta split: option.splits)
  have g1: "fst (getGroups E cfg b (q\<lparr>startIndex := Some 0\<rparr>)) = fst (getGroups E cfg b (q\<lparr>startIndex := None\<rparr>))"
    using runQuery_startIndex_zero by (simp add: getGroups_def case_prod_beta split: option.splits)
  have g2: "fst (getGroups E cfg b (q\<lparr>count := Some 0\<rparr>)) = fst (getGroups E cfg b (q\<lparr>count := None\<rparr>))"
    using runQuery_count_zero by (simp add: getGroups_def case_prod_beta split: option.splits)
  have e1: "fst (getEntitlements E cfg b (q\<lparr>startIndex := Some 0\<rparr>))
           = fst (getEntitlements E cfg b (q\<lparr>startIndex := None\<rparr>))"
    using runQuery_startIndex_zero by (simp add: getEntitlements_def case_prod_beta split: option.splits)
  have e2: "fst (getEntitlements E cfg b (q\<lparr>count := Some 0\<rparr>))
           = fst (getEntitlements E cfg b (q\<lparr>count := None\<rparr>))"
    using runQuery_count_zero by (simp add: getEntitlements_def case_prod_beta split: option.splits)
  have p1: "EntitlementsPlugin_getEntitlements ents (q\<lparr>startIndex := Some 0\<rparr>)
           = EntitlementsPlugin_getEntitlements ents (q\<lparr>startIndex := None\<rparr>)"
    by (simp add: EntitlementsPlugin_getEntitlements_def matchesFilter_paging paginate_startIndex_zero
        split: sum.splits)
  have p2: "EntitlementsPlugin_getEntitlements ents (q\<lparr>count := Some 0\<rparr>)
           = EntitlementsPlugin_getEntitlements ents (q\<lparr>count := None\<rparr>)"
    by (simp add: EntitlementsPlugin_getEntitlements_def matchesFilter_paging paginate_count_zero
        split: sum.splits)
  have u3: "fst (getUsers E cfg b g)
           = Inr \<lparr>Resources = take 100 (drop (nat (orDefault (startIndex g) 1 - 1)) (users ent)),
                  totalResults = length (users ent)\<rparr>"
    using runQuery_matched [OF matched_noFilter [OF assms(2,3)]] assms(1) pg
    by (simp add: getUsers_def case_prod_beta)
  have g3: "fst (getGroups E cfg b g)
           = Inr \<lparr>Resources = take 100 (drop (nat (orDefault (startIndex g) 1 - 1)) (groups ent)),
                  totalResults = length (groups ent)\<rparr>"
    using runQuery_matched [OF matched_noFilter [OF assms(2,3)]] assms(1) pg
    by (simp add: getGroups_def case_prod_beta)
  have e3: "fst (getEntitlements E cfg b g)
           = Inr \<lparr>Resources = take 100 (drop (nat (orDefault (startIndex g) 1 - 1)) (entitlements ent)),
                  totalResults = length (entitlements ent)\<rparr>"
    using runQuery_matched [OF matched_noFilter [OF assms(2,3)]] assms(1) pg
    by (simp add: getEntitlements_def case_prod_beta)
  have p3: "EntitlementsPlugin_getEntitlements ents g
           = Inr \<lparr>Resources = take 100 (drop (nat (orDefault (startIndex g) 1 - 1)) ents),
                  totalResults = length ents\<rparr>"
    using assms(2) pg by (simp add: EntitlementsPlugin_getEntitlements_def)
  show ?thesis by (intro conjI u1 u2 g1 g2 e1 e2 p1 p2 u3 g3 e3 p3)
qed

text \<open>
  The theorem at work: the unfiltered query with \<^verbatim>\<open>count = 0\<close> returns all four sample
  entitlements; and a filtered query with \<^verbatim>\<open>count = 0\<close> answers as it does without a
  \<^verbatim>\<open>count\<close>.
\<close>

theorem zero_is_absent_witness:
  "sampleConfig ''loki'' = Some sampleEntity
   \<and> \<not> given (operator (noFilter\<lparr>count := Some 0\<rparr>))
   \<and> \<not> given (rawFilter (noFilter\<lparr>count := Some 0\<rparr>))
   \<and> count (noFilter\<lparr>count := Some 0\<rparr>) = Some 0
   \<and> fst (getEntitlements refEngine sampleConfig ''loki'' (noFilter\<lparr>count := Some 0\<rparr>))
       = Inr \<lparr>Resources = storedEntitlements, totalResults = 4\<rparr>
   \<and> fst (getUsers refEngine sampleConfig ''loki'' (byUserName\<lparr>count := Some 0\<rparr>))
       = fst (getUsers refEngine sampleConfig ''loki'' (byUserName\<lparr>count := None\<rparr>))"
proof -
  let ?g = "noFilter\<lparr>count := Some 0\<rparr>"
  have a: "sampleConfig ''loki'' = Some sampleEntity" by (rule sampleConfig_loki)
  have b: "\<not> given (operator ?g)" by (simp add: noFilter_def given_def)
  have c: "\<not> given (rawFilter ?g)" by (simp add: noFilter_def given_def)
  have d: "count ?g = Some 0" by simp
  note t = zero_is_absent [where cfg = sampleConfig and b = "''loki''" and ent = sampleEntity
      and g = ?g and E = refEngine and q = byUserName and ents = "[]", OF a b c d]
  have "fst (getEntitlements refEngine sampleConfig ''loki'' ?g)
       = Inr \<lparr>Resources = take 100 (drop (nat (orDefault (startIndex ?g) 1 - 1)) (entitlements sampleEntity)),
              totalResults = length (entitlements sampleEntity)\<rparr>"
    using t by blast
  then have e: "fst (getEntitlements refEngine sampleConfig ''loki'' ?g)
       = Inr \<lparr>Resources = storedEntitlements, totalResults = 4\<rparr>"
    by (simp add: noFilter_def orDefault_def sampleEntity_def storedEntitlements_length)
  have f: "fst (getUsers refEngine sampleConfig ''loki'' (byUserName\<lparr>count := Some 0\<rparr>))
       = fst (getUsers refEngine sampleConfig ''loki'' (byUserName\<lparr>count := None\<rparr>))"
    using t by blast
  show ?thesis by (intro conjI a b c d e f)
qed

subsection \<open>Compound filters (claim C7)\<close>

text \<open>
  Claim C7. For a known tenant, a query that supplies a \<^verbatim>\<open>rawFilter\<close> and no operator
  fails in \<^verbatim>\<open>getUsers\<close>, \<^verbatim>\<open>getGroups\<close> and \<^verbatim>\<open>getEntitlements\<close> with the error
  "not supporting advanced filtering" that quotes the raw filter; the query object and the
  collections are as before the call; the outcome is the same for every engine and every
  content of the collections, so no part of the filter is evaluated.
\<close>

theorem rawFilter_rejected:
  assumes "cfg b = Some ent" and "\<not> given (operator g)" and "rawFilter g = Some raw" and "raw \<noteq> []"
  shows "getUsers E cfg b g
           = (Inl (Err ''Error'' (''getUsers error: not supporting advanced filtering: '' @ raw)), g, cfg)
       \<and> getGroups E cfg b g
           = (Inl (Err ''Error'' (''getGroups error: not supporting advanced filtering: '' @ raw)), g, cfg)
       \<and> getEntitlements E cfg b g
           = (Inl (Err ''Error'' (''getEntitlements error: not supporting advanced filtering: '' @ raw)), g, cfg)"
  using assms
  by (simp add: getUsers_def getGroups_def getEntitlements_def runQuery_rawFilter
      advancedFiltering_def asKey_def)

text \<open>The theorem at work on a compound filter.\<close>

theorem rawFilter_rejected_witness:
  "sampleConfig ''loki'' = Some sampleEntity
   \<and> \<not> given (operator compound)
   \<and> rawFilter compound = Some ''userName sw b and active eq true''
   \<and> ''userName sw b and active eq true'' \<noteq> []
   \<and> getUsers refEngine sampleConfig ''loki'' compound
        = (Inl (Err ''Error''
             ''getUsers error: not supporting advanced filtering: userName sw b and active eq true''),
           compound, sampleConfig)"
proof -
  have a: "sampleConfig ''loki'' = Some sampleEntity" by (rule sampleConfig_loki)
  have b: "\<not> given (operator compound)" by (simp add: compound_def noFilter_def given_def)
  have c: "rawFilter compound = Some ''userName sw b and active eq true''"
    by (simp add: compound_def noFilter_def)
  have d: "''userName sw b and active eq true'' \<noteq> []" by simp
  have e: "getUsers refEngine sampleConfig ''loki'' compound
        = (Inl (Err ''Error''
             ''getUsers error: not supporting advanced filtering: userName sw b and active eq true''),
           compound, sampleConfig)"
    using rawFilter_rejected [where cfg = sampleConfig and b = "''loki''" and ent = sampleEntity
        and g = compound and raw = "''userName sw b and active eq true''" and E = refEngine, OF a b c d]
    by simp
  show ?thesis by (intro conjI a b c d e)
qed

subsection \<open>What a query changes (claim C8)\<close>

text \<open>
  Claim C8, as amended. The operator conversion assigns to the query object of the caller:
  for a known tenant \<^verbatim>\<open>operator\<close> becomes the native operator of the table, and for
  \<^verbatim>\<open>sw\<close> and \<^verbatim>\<open>ew\<close> \<^verbatim>\<open>value\<close> becomes the regular expression of the anchored pattern
  (when that pattern is well formed). Nothing else changes: \<^verbatim>\<open>attribute\<close>,
  \<^verbatim>\<open>rawFilter\<close>, \<^verbatim>\<open>startIndex\<close> and \<^verbatim>\<open>count\<close> are as before, \<^verbatim>\<open>value\<close> is as before
  for every operator but \<^verbatim>\<open>sw\<close> and \<^verbatim>\<open>ew\<close>, a query without an operator or with an
  invalid one is left as it was, and the collections are never changed.
\<close>

theorem translation_frame:
  assumes "getUsers E cfg b g = (r, g', cfg') \<or> getGroups E cfg b g = (r, g', cfg')
         \<or> getEntitlements E cfg b g = (r, g', cfg')"
  shows "cfg' = cfg
       \<and> attribute g' = attribute g \<and> rawFilter g' = rawFilter g
       \<and> startIndex g' = startIndex g \<and> count g' = count g
       \<and> (\<not> given (operator g) \<longrightarrow> g' = g)
       \<and> (operator g \<noteq> Some ''sw'' \<and> operator g \<noteq> Some ''ew'' \<longrightarrow> fvalue g' = fvalue g)
       \<and> (\<forall>op. cfg b \<noteq> None \<and> operator g = Some op \<and> translatable op
              \<longrightarrow> operator g' = Some (nativeOperator op))
       \<and> (\<forall>op. cfg b \<noteq> None \<and> operator g = Some op \<and> (op = ''sw'' \<or> op = ''ew'')
              \<and> regexpOk E (anchoredPattern op (fvalue g))
            \<longrightarrow> fvalue g' = JRegExp (anchoredPattern op (fvalue g)) [])
       \<and> (\<forall>op. operator g = Some op \<and> op \<noteq> [] \<and> \<not> translatable op \<longrightarrow> g' = g)"
proof (cases "cfg b")
  case None
  then have "cfg' = cfg \<and> g' = g"
    using assms by (auto simp: getUsers_def getGroups_def getEntitlements_def)
  then show ?thesis using None by simp
next
  case (Some ent)
  from assms obtain action uniq mem idx data where
    "runQuery E action uniq mem idx data g = (r, g')" and c: "cfg' = cfg"
    using Some by (auto simp: getUsers_def getGroups_def getEntitlements_def split: prod.splits)
  from runQuery_frame [OF this(1)] c show ?thesis by blast
qed

text \<open>The theorem at work on the query \<^verbatim>\<open>userName eq "bjensen"\<close>.\<close>

theorem translation_frame_witness:
  "getUsers refEngine sampleConfig ''loki'' byUserName
     = (fst (getUsers refEngine sampleConfig ''loki'' byUserName),
        fst (snd (getUsers refEngine sampleConfig ''loki'' byUserName)),
        snd (snd (getUsers refEngine sampleConfig ''loki'' byUserName)))
   \<and> sampleConfig ''loki'' \<noteq> None
   \<and> operator byUserName = Some ''eq'' \<and> translatable ''eq''
   \<and> snd (snd (getUsers refEngine sampleConfig ''loki'' byUserName)) = sampleConfig
   \<and> attribute (fst (snd (getUsers refEngine sampleConfig ''loki'' byUserName))) = Some ''userName''
   \<and> fvalue (fst (snd (getUsers refEngine sampleConfig ''loki'' byUserName))) = JStr ''bjensen''
   \<and> operator (fst (snd (getUsers refEngine sampleConfig ''loki'' byUserName))) = Some ''$eq''"
proof -
  let ?X = "getUsers refEngine sampleConfig ''loki'' byUserName"
  have run: "?X = (fst ?X, fst (snd ?X), snd (snd ?X))" by simp
  have k: "sampleConfig ''loki'' \<noteq> None" by (simp add: sampleConfig_loki)
  have op: "translatable ''eq''" by (simp add: translatable_def validFilterOperators_def)
  have n: "nativeOperator ''eq'' = ''$eq''" by (simp add: nativeOperator_def)
  have q: "operator byUserName = Some ''eq''" "attribute byUserName = Some ''userName''"
    "fvalue byUserName = JStr ''bjensen''"
    by (simp_all add: byUserName_def noFilter_def)
  from translation_frame [where E = refEngine and cfg = sampleConfig and b = "''loki''"
      and g = byUserName and r = "fst ?X" and g' = "fst (snd ?X)" and cfg' = "snd (snd ?X)",
      OF disjI1, OF run]
  have f: "snd (snd ?X) = sampleConfig"
    "attribute (fst (snd ?X)) = Some ''userName''"
    "fvalue (fst (snd ?X)) = JStr ''bjensen''"
    "operator (fst (snd ?X)) = Some ''$eq''"
    using op q k n by auto
  show ?thesis by (intro conjI run k q(1) op f)
qed

text \<open>
  The claim as first stated had the query object unchanged. After
  \<^verbatim>\<open>userName eq "bjensen"\<close> the caller's object holds the operator \<^verbatim>\<open>$eq\<close>.
\<close>

theorem translation_frame_counterexample:
  "fst (snd (getUsers refEngine sampleConfig ''loki'' byUserName)) = byUserName\<lparr>operator := Some ''$eq''\<rparr>
   \<and> operator byUserName = Some ''eq''
   \<and> fst (snd (getUsers refEngine sampleConfig ''loki'' byUserName)) \<noteq> byUserName"
  by code_simp

subsection \<open>Updates of an unknown identifier (claim C5)\<close>

text \<open>
  Claim C5. For a known tenant and an identifier that no document of the collection has,
  \<^verbatim>\<open>modifyUser\<close>, \<^verbatim>\<open>modifyGroup\<close> and \<^verbatim>\<open>modifyEntitlement\<close> fail with the error named
  \<^verbatim>\<open>notFound\<close> whose message quotes the identifier, and the configuration, with all its
  collections, is exactly as before the call.
\<close>

theorem modify_unknown_id:
  assumes "cfg b = Some ent"
  shows "(JStr ident \<notin> set (map (\<lambda>d. field d ''id'') (users ent)) \<longrightarrow>
            modifyUser E now ms cfg b ident scimdata
              = (Inl (Err ''notFound'' (''modifyUser error: user id='' @ ident @ '' does not exist'')), cfg))
       \<and> (JStr ident \<notin> set (map (\<lambda>d. field d ''id'') (groups ent)) \<longrightarrow>
            modifyGroup E now ms cfg b ident scimdata
              = (Inl (Err ''notFound'' (''modifyGroup error: group id='' @ ident @ '' does not exist'')), cfg))
       \<and> (JStr ident \<notin> set (map (\<lambda>d. field d ''id'') (entitlements ent)) \<longrightarrow>
            modifyEntitlement E ms cfg b ident scimdata
              = (Inl (Err ''notFound''
                   (''modifyEntitlement error: entitlement id='' @ ident @ '' does not exist'')), cfg))"
  using assms
  by (simp add: modifyUser_def modifyGroup_def modifyEntitlement_def findOne_id_absent
      notFound_def namedError_def del: set_map)

text \<open>The theorem at work on the sample users and the sample entitlements.\<close>

theorem modify_unknown_id_witness:
  "sampleConfig ''loki'' = Some sampleEntity
   \<and> JStr ''nobody'' \<notin> set (map (\<lambda>d. field d ''id'') (users sampleEntity))
   \<and> JStr ''entitlement-000'' \<notin> set (map (\<lambda>d. field d ''id'') (entitlements sampleEntity))
   \<and> modifyUser refEngine ''2023-11-14T22:13:21.000Z'' (sampleClock + 1000) sampleConfig ''loki'' ''nobody''
         [(''active'', JBool False)]
       = (Inl (Err ''notFound'' ''modifyUser error: user id=nobody does not exist''), sampleConfig)
   \<and> modifyEntitlement refEngine (sampleClock + 1000) sampleConfig ''loki'' ''entitlement-000''
         [(''description'', JStr ''none'')]
       = (Inl (Err ''notFound'' ''modifyEntitlement error: entitlement id=entitlement-000 does not exist''),
          sampleConfig)"
proof -
  have a: "sampleConfig ''loki'' = Some sampleEntity" by (simp add: sampleConfig_def)
  have b: "JStr ''nobody'' \<notin> set (map (\<lambda>d. field d ''id'') (users sampleEntity))"
    by code_simp
  have b': "JStr ''entitlement-000'' \<notin> set (map (\<lambda>d. field d ''id'') (entitlements sampleEntity))"
    by code_simp
  note t = modify_unknown_id [where cfg = sampleConfig and b = "''loki''" and ent = sampleEntity
        and E = refEngine, OF a]
  have c: "modifyUser refEngine ''2023-11-14T22:13:21.000Z'' (sampleClock + 1000) sampleConfig ''loki'' ''nobody''
         [(''active'', JBool False)]
       = (Inl (Err ''notFound'' ''modifyUser error: user id=nobody does not exist''), sampleConfig)"
    using t [of "''nobody''"] b by simp
  have d: "modifyEntitlement refEngine (sampleClock + 1000) sampleConfig ''loki'' ''entitlement-000''
         [(''description'', JStr ''none'')]
       = (Inl (Err ''notFound'' ''modifyEntitlement error: entitlement id=entitlement-000 does not exist''),
          sampleConfig)"
    using t [of "''entitlement-000''"] b' by simp
  show ?thesis by (intro conjI a b b' c d)
qed

subsection \<open>Unique login names (claim C9)\<close>

lemma uniqueLogins_snoc:
  "uniqueLogins (xs @ [u]) \<longleftrightarrow>
     uniqueLogins xs \<and> list_all (\<lambda>d. \<not> strictEq (field d ''userName'') (field u ''userName'')) xs"
  by (induction xs) auto

lemma usersOf_upd:
  "usersOf (cfg(b' \<mapsto> ent)) b = (if b = b' then users ent else usersOf cfg b)"
  by (simp add: usersOf_def)

lemma insertDoc_result:
  assumes "insertDoc uniq data loki ms d = Inr (data', stored)"
  shows "data' = data @ [stored]"
    and "k \<noteq> ''meta'' \<Longrightarrow> k \<noteq> ''$loki'' \<Longrightarrow> field stored k = field d k"
  using assms
  by (auto simp: insertDoc_def Let_def field_setProp split: if_splits jsval.splits option.splits)

lemma createUser_users:
  "usersOf (snd (createUser E uuid t1 t2 loki ms cfg b' scimdata)) b = usersOf cfg b
   \<or> (\<exists>user. usersOf (snd (createUser E uuid t1 t2 loki ms cfg b' scimdata)) b = usersOf cfg b @ [user]
         \<and> field user ''userName'' = field scimdata ''userName''
         \<and> findOne E [] (usersOf cfg b) (QEq ''userName'' (field scimdata ''userName'')) = Inr None)"
proof (cases "cfg b'")
  case None
  then show ?thesis by (simp add: createUser_def)
next
  case (Some ent)
  show ?thesis
  proof (cases "truthy (field scimdata ''userName'')")
    case False
    then show ?thesis using Some by (simp add: createUser_def)
  next
    case True
    show ?thesis
    proof (cases "findOne E [] (users ent) (QEq ''userName'' (field scimdata ''userName''))")
      case (Inl e)
      then show ?thesis using Some True by (simp add: createUser_def)
    next
      case (Inr found)
      show ?thesis
      proof (cases found)
        case (Some existingUser)
        then show ?thesis using \<open>cfg b' = Some ent\<close> True Inr by (simp add: createUser_def)
      next
        case None
        let ?user = "setProp (setProp (copyObj scimdata) ''id'' (JStr uuid)) ''meta'' (newMeta ''User'' t1 t2)"
        have n: "field ?user ''userName'' = field scimdata ''userName''"
          by (simp add: field_setProp copyObj_def)
        show ?thesis
        proof (cases "insertDoc usersUnique (users ent) loki ms ?user")
          case (Inl e)
          then show ?thesis using \<open>cfg b' = Some ent\<close> True \<open>findOne E [] (users ent) _ = Inr found\<close> None
            by (simp add: createUser_def Let_def)
        next
          case r: (Inr res)
          obtain data stored where res: "res = (data, stored)" by (cases res)
          have d: "data = users ent @ [stored]"
            using insertDoc_result(1) [OF r [unfolded res]] .
          have n': "field stored ''userName'' = field scimdata ''userName''"
            using insertDoc_result(2) [OF r [unfolded res], of "''userName''"] n by simp
          have s: "snd (createUser E uuid t1 t2 loki ms cfg b' scimdata) = cfg(b' \<mapsto> ent\<lparr>users := data\<rparr>)"
            using \<open>cfg b' = Some ent\<close> True \<open>findOne E [] (users ent) _ = Inr found\<close> None r res
            by (simp add: createUser_def Let_def setUsers_def)
          show ?thesis
          proof (cases "b = b'")
            case True
            then have "usersOf cfg b = users ent" using \<open>cfg b' = Some ent\<close> by (simp add: usersOf_def)
            then show ?thesis
              using s d n' True \<open>findOne E [] (users ent) _ = Inr found\<close> None
              by (auto simp: usersOf_upd)
          next
            case False
            then show ?thesis using s by (simp add: usersOf_upd)
          qed
        qed
      qed
    qed
  qed
qed

lemma createUser_keeps_unique:
  assumes "uniqueLogins (usersOf cfg b)"
  shows "uniqueLogins (usersOf (snd (createUser E uuid t1 t2 loki ms cfg b' scimdata)) b)"
  using createUser_users [of E uuid t1 t2 loki ms cfg b' scimdata b] assms
  by (auto simp: uniqueLogins_snoc dest: findOne_None_userName)

text \<open>
  Claim C9, as amended. For every tenant, login names are unique as the store compares them
  (strict equality: case matters), and every run of create operations, on whatever tenants,
  preserves this: if no two users of the tenant have the same login name before the run,
  none have after it.
\<close>

theorem creates_keep_logins_unique:
  assumes "uniqueLogins (usersOf cfg b)"
  shows "uniqueLogins (usersOf (createAll E cfg reqs) b)"
  using assms
proof (induction reqs arbitrary: cfg)
  case Nil
  then show ?case by simp
next
  case (Cons r reqs)
  obtain b' uuid t1 t2 loki ms scimdata where r: "r = (b', uuid, t1, t2, loki, ms, scimdata)"
    by (cases r) auto
  have "uniqueLogins (usersOf (snd (createUser E uuid t1 t2 loki ms cfg b' scimdata)) b)"
    by (rule createUser_keeps_unique [OF Cons.prems])
  then show ?case unfolding r by (simp add: Cons.IH)
qed

text \<open>
  The theorem at work: three creates on the sample configuration, the second a repetition
  of the first (refused), the third differing from the first in case only (accepted).
\<close>

theorem creates_keep_logins_unique_witness:
  "uniqueLogins (usersOf sampleConfig ''loki'')
   \<and> map (\<lambda>d. field d ''userName'')
        (usersOf (createAll refEngine sampleConfig
           [(''loki'', ''u3'', ''2023-11-14T22:13:21.000Z'', ''2023-11-14T22:13:21.000Z'', 3,
               sampleClock + 1000, alice),
            (''loki'', ''u4'', ''2023-11-14T22:13:22.000Z'', ''2023-11-14T22:13:22.000Z'', 4,
               sampleClock + 2000, alice),
            (''loki'', ''u5'', ''2023-11-14T22:13:23.000Z'', ''2023-11-14T22:13:23.000Z'', 4,
               sampleClock + 3000, [(''userName'', JStr ''Alice'')])]) ''loki'')
       = [JStr ''bjensen'', JStr ''jsmith'', JStr ''alice'', JStr ''Alice'']
   \<and> uniqueLogins
        (usersOf (createAll refEngine sampleConfig
           [(''loki'', ''u3'', ''2023-11-14T22:13:21.000Z'', ''2023-11-14T22:13:21.000Z'', 3,
               sampleClock + 1000, alice),
            (''loki'', ''u4'', ''2023-11-14T22:13:22.000Z'', ''2023-11-14T22:13:22.000Z'', 4,
               sampleClock + 2000, alice),
            (''loki'', ''u5'', ''2023-11-14T22:13:23.000Z'', ''2023-11-14T22:13:23.000Z'', 4,
               sampleClock + 3000, [(''userName'', JStr ''Alice'')])]) ''loki'')"
proof -
  have a: "uniqueLogins (usersOf sampleConfig ''loki'')" by code_simp
  have b: "map (\<lambda>d. field d ''userName'')
        (usersOf (createAll refEngine sampleConfig
           [(''loki'', ''u3'', ''2023-11-14T22:13:21.000Z'', ''2023-11-14T22:13:21.000Z'', 3,
               sampleClock + 1000, alice),
            (''loki'', ''u4'', ''2023-11-14T22:13:22.000Z'', ''2023-11-14T22:13:22.000Z'', 4,
               sampleClock + 2000, alice),
            (''loki'', ''u5'', ''2023-11-14T22:13:23.000Z'', ''2023-11-14T22:13:23.000Z'', 4,
               sampleClock + 3000, [(''userName'', JStr ''Alice'')])]) ''loki'')
       = [JStr ''bjensen'', JStr ''jsmith'', JStr ''alice'', JStr ''Alice'']"
    by code_simp
  show ?thesis
    by (intro conjI a b creates_keep_logins_unique [OF a])
qed

text \<open>
  The claim as first stated had login names unique up to case. After the create of
  \<^verbatim>\<open>BJensen\<close> the sample collection holds that user next to \<^verbatim>\<open>bjensen\<close>.
\<close>

theorem creates_keep_logins_unique_counterexample:
  "map (\<lambda>d. field d ''userName'')
     (usersOf (snd (createUser refEngine ''u3'' ''2023-11-14T22:13:21.000Z'' ''2023-11-14T22:13:21.000Z''
                      3 (sampleClock + 1000) sampleConfig ''loki'' [(''userName'', JStr ''BJensen'')])) ''loki'')
     = [JStr ''bjensen'', JStr ''jsmith'', JStr ''BJensen'']
   \<and> toLowerCase ''BJensen'' = toLowerCase ''bjensen''"
  by code_simp

subsection \<open>Grants\<close>

lemma getProp_object: "isObject g \<Longrightarrow> getProp g k = Inr (readProp g k)"
  by (cases g) (simp_all add: isObject_def getProp_def readProp_def)

lemma isObject_truthy: "isObject g \<Longrightarrow> truthy g"
  by (cases g) (simp_all add: isObject_def)

lemma findGrant_absent:
  "list_all isObject gs \<Longrightarrow> \<not> list_ex (\<lambda>g. readProp g ''value'' = JStr v) gs \<Longrightarrow>
   findGrant gs (JStr v) = Inr JUndefined"
  by (induction gs) (simp_all add: getProp_object)

lemma findGrant_present:
  "list_all isObject gs \<Longrightarrow> list_ex (\<lambda>g. readProp g ''value'' = JStr v) gs \<Longrightarrow>
   \<exists>g. findGrant gs (JStr v) = Inr g \<and> truthy g"
  by (induction gs) (auto simp: getProp_object isObject_truthy)

lemma filterGrants_objects:
  "list_all isObject gs \<Longrightarrow>
   filterGrants gs (JStr v) = Inr (filter (\<lambda>g. readProp g ''value'' \<noteq> JStr v) gs)"
  by (induction gs) (simp_all add: getProp_object)

lemma filter_absent:
  "\<not> list_ex (\<lambda>g. readProp g ''value'' = JStr v) gs \<Longrightarrow>
   filter (\<lambda>g. readProp g ''value'' \<noteq> JStr v) gs = gs"
  by (induction gs) simp_all

lemma grantsOf_setProp [simp]: "grantsOf (setProp user ''entitlements'' (JArr gs)) = gs"
  by (simp add: grantsOf_def field_setProp)

lemma wellFormed_cases:
  assumes "wellFormedGrants user"
  obtains (arr) gs where "field user ''entitlements'' = JArr gs" "list_all isObject gs" "grantsOf user = gs"
  | (none) "\<not> truthy (field user ''entitlements'')" "grantsOf user = []"
  using assms by (cases "field user ''entitlements''") (auto simp: wellFormedGrants_def grantsOf_def)

lemma patchEntry_add:
  assumes wf: "wellFormedGrants user"
    and a: "field a ''operation'' = JStr ''add''" "field a ''value'' = JStr v"
  shows "patchEntry user (JObj a) =
           (None, if hasGrant user v then user
                  else setProp user ''entitlements'' (JArr (grantsOf user @ [newGrant (JObj a)])))"
  using wf
proof (cases rule: wellFormed_cases)
  case (arr gs)
  show ?thesis
  proof (cases "hasGrant user v")
    case True
    then obtain g where "findGrant gs (JStr v) = Inr g" "truthy g"
      using findGrant_present [OF arr(2), of v] arr(3) by (auto simp: hasGrant_def)
    then show ?thesis using True arr a
      by (simp add: patchEntry_def getProp_def readProp_def)
  next
    case False
    then have "findGrant gs (JStr v) = Inr JUndefined"
      using findGrant_absent [OF arr(2), of v] arr(3) by (simp add: hasGrant_def)
    then show ?thesis using False arr a
      by (simp add: patchEntry_def getProp_def readProp_def)
  qed
next
  case none
  then have h: "\<not> hasGrant user v" by (simp add: hasGrant_def)
  show ?thesis using none h a
    by (simp add: patchEntry_def getProp_def readProp_def field_setProp setProp_twice)
qed

lemma patchEntry_remove:
  assumes wf: "wellFormedGrants user"
    and r: "field r ''operation'' = JStr ''remove''" "field r ''value'' = JStr v"
  shows "patchEntry user (JObj r) =
           (None, if truthy (field user ''entitlements'')
                  then setProp user ''entitlements''
                         (JArr (filter (\<lambda>g. readProp g ''value'' \<noteq> JStr v) (grantsOf user)))
                  else user)"
  using wf
proof (cases rule: wellFormed_cases)
  case (arr gs)
  then show ?thesis using r filterGrants_objects [OF arr(2), of v]
    by (simp add: patchEntry_def getProp_def readProp_def)
next
  case none
  then show ?thesis using r by (simp add: patchEntry_def getProp_def readProp_def)
qed

lemma wellFormed_setProp:
  "list_all isObject gs \<Longrightarrow> wellFormedGrants (setProp user ''entitlements'' (JArr gs))"
  by (simp add: wellFormedGrants_def field_setProp)

lemma newGrant_value:
  "readProp (newGrant (JObj a)) ''value'' = field a ''value''" "isObject (newGrant (JObj a))"
  by (simp_all add: newGrant_def readProp_def field_def isObject_def)

lemma wellFormed_objects: "wellFormedGrants user \<Longrightarrow> list_all isObject (grantsOf user)"
  by (cases "field user ''entitlements''") (auto simp: wellFormedGrants_def grantsOf_def)

lemma hasGrant_truthy: "hasGrant user v \<Longrightarrow> truthy (field user ''entitlements'')"
  by (cases "field user ''entitlements''") (auto simp: hasGrant_def grantsOf_def)

lemma patchEntry_add_result:
  assumes wf: "wellFormedGrants user"
    and a: "field a ''operation'' = JStr ''add''" "field a ''value'' = JStr v"
  shows "\<exists>u. patchEntry user (JObj a) = (None, u) \<and> wellFormedGrants u \<and> hasGrant u v
           \<and> (hasGrant user v \<longrightarrow> u = user)
           \<and> (\<not> hasGrant user v \<longrightarrow> grantsOf u = grantsOf user @ [newGrant (JObj a)])"
proof (cases "hasGrant user v")
  case True
  then show ?thesis using patchEntry_add [OF wf a] wf by simp
next
  case False
  let ?u = "setProp user ''entitlements'' (JArr (grantsOf user @ [newGrant (JObj a)]))"
  have 1: "patchEntry user (JObj a) = (None, ?u)" using patchEntry_add [OF wf a] False by simp
  have 2: "wellFormedGrants ?u"
    using wellFormed_objects [OF wf] by (intro wellFormed_setProp) (simp add: newGrant_value)
  have 3: "hasGrant ?u v" by (simp add: hasGrant_def newGrant_value a)
  show ?thesis using 1 2 3 False by simp
qed

lemma hasGrant_filtered:
  "\<not> hasGrant (setProp user ''entitlements''
        (JArr (filter (\<lambda>g. readProp g ''value'' \<noteq> JStr v) gs))) v"
  by (simp add: hasGrant_def list_ex_iff)

lemma advanceMeta_field:
  "k \<noteq> ''meta'' \<Longrightarrow> field (snd (advanceMeta E who now u)) k = field u k"
  by (simp add: advanceMeta_def Let_def field_setProp split: jsval.splits sum.splits)

lemma patchEntry_field:
  "k \<noteq> ''entitlements'' \<Longrightarrow> field (snd (patchEntry u e)) k = field u k"
  by (simp add: patchEntry_def Let_def field_setProp split: jsval.splits sum.splits)

lemma patchEntitlements_field:
  "k \<noteq> ''entitlements'' \<Longrightarrow> field (snd (patchEntitlements u es)) k = field u k"
proof (induction es arbitrary: u)
  case Nil
  then show ?case by simp
next
  case (Cons e es)
  obtain x u1 where p: "patchEntry u e = (x, u1)" by (cases "patchEntry u e")
  have f: "field u1 k = field u k" using patchEntry_field [OF Cons.prems, of u e] p by simp
  show ?case
  proof (cases x)
    case None
    then show ?thesis using p f Cons.IH [OF Cons.prems, of u1] by simp
  next
    case (Some err)
    then show ?thesis using p f by simp
  qed
qed

subsection \<open>The steps of an update\<close>

lemma updateDoc_stored:
  "\<exists>d'. fst (snd (updateDoc uniq data ms i d)) = data[i := d']
        \<and> (\<forall>k. k \<noteq> ''meta'' \<longrightarrow> field d' k = field d k)"
  by (auto simp: updateDoc_def Let_def field_setProp split: option.splits jsval.splits)

lemma handleEntitlements_array:
  assumes "field scimdata ''entitlements'' = JArr es"
  shows "field (fst (snd (handleEntitlements user scimdata))) ''entitlements''
           = field (snd (patchEntitlements user es)) ''entitlements''"
    and "fst (handleEntitlements user scimdata) = None
           \<Longrightarrow> snd (snd (handleEntitlements user scimdata)) = delProp scimdata ''entitlements''"
  using assms by (auto simp: handleEntitlements_def split: prod.splits option.splits)

lemma modifyUser_found:
  assumes c: "cfg b = Some ent"
    and f: "findOne E [] (users ent) (QEq ''id'' (JStr ident)) = Inr (Some (i, user))"
  shows "modifyUser E now ms cfg b ident scimdata =
     (case handleEntitlements user scimdata of
        (Some err, user1, scimdata1) \<Rightarrow> (Inl err, setUsers cfg b ent ((users ent)[i := user1]))
      | (None, user1, scimdata1) \<Rightarrow>
          (case advanceMeta E ''user'' now (mergeProps user1 scimdata1) of
             (Some err, user2) \<Rightarrow> (Inl err, setUsers cfg b ent ((users ent)[i := user2]))
           | (None, user2) \<Rightarrow>
               (case updateDoc usersUnique (users ent) ms i user2 of
                  (Some err, data, user3) \<Rightarrow> (Inl err, setUsers cfg b ent data)
                | (None, data, user3) \<Rightarrow> (Inr user3, setUsers cfg b ent data))))"
  using c f by (simp add: modifyUser_def)

lemma modifyUser_stored:
  assumes c: "cfg b = Some ent"
    and f: "findOne E [] (users ent) (QEq ''id'' (JStr ident)) = Inr (Some (i, user))"
    and e: "field scimdata ''entitlements'' = JArr es"
  shows "\<exists>d. snd (modifyUser E now ms cfg b ident scimdata) = setUsers cfg b ent ((users ent)[i := d])
            \<and> field d ''entitlements'' = field (snd (patchEntitlements user es)) ''entitlements''"
proof -
  obtain x user1 scimdata1 where p: "handleEntitlements user scimdata = (x, user1, scimdata1)"
    by (cases "handleEntitlements user scimdata")
  have u1: "field user1 ''entitlements'' = field (snd (patchEntitlements user es)) ''entitlements''"
    using handleEntitlements_array(1) [OF e, of user] p by simp
  note m1 = modifyUser_found [where cfg = cfg and b = b and now = now and ms = ms and scimdata = scimdata, OF c f]
  show ?thesis
  proof (cases x)
    case (Some err)
    then show ?thesis using p u1 unfolding m1 by auto
  next
    case None
    have s1: "scimdata1 = delProp scimdata ''entitlements''"
      using handleEntitlements_array(2) [OF e, of user] p None by simp
    obtain y user2 where a: "advanceMeta E ''user'' now (mergeProps user1 scimdata1) = (y, user2)"
      by (cases "advanceMeta E ''user'' now (mergeProps user1 scimdata1)")
    have "field user2 ''entitlements'' = field (mergeProps user1 scimdata1) ''entitlements''"
      using advanceMeta_field [of "''entitlements''" E "''user''" now "mergeProps user1 scimdata1"] a
      by simp
    also have "\<dots> = field user1 ''entitlements''"
      using keys_delProp [of "''entitlements''" scimdata] by (simp add: field_mergeProps s1)
    finally have u2: "field user2 ''entitlements'' = field (snd (patchEntitlements user es)) ''entitlements''"
      using u1 by simp
    show ?thesis
    proof (cases y)
      case (Some err)
      then show ?thesis using p None a u2 unfolding m1 by auto
    next
      case n2: None
      obtain z data user3 where u: "updateDoc usersUnique (users ent) ms i user2 = (z, data, user3)"
        by (cases "updateDoc usersUnique (users ent) ms i user2") auto
      obtain d' where d': "data = (users ent)[i := d']" "field d' ''entitlements'' = field user2 ''entitlements''"
        using updateDoc_stored [of usersUnique "users ent" ms i user2] u by auto
      have "snd (modifyUser E now ms cfg b ident scimdata) = setUsers cfg b ent data"
        using p None a n2 u unfolding m1 by (cases z) simp_all
      then show ?thesis using d' u2 by auto
    qed
  qed
qed

subsection \<open>Entitlement grants of a patch (claim C3)\<close>

text \<open>
  Claim C3. Let the grants of the stored user be well formed, let \<open>a\<close> be an entry with the
  operation \<^verbatim>\<open>add\<close> and \<open>r\<close> an entry with the operation \<^verbatim>\<open>remove\<close>, both on the value
  \<open>v\<close>. Then: if the user has a grant of \<open>v\<close>, the \<^verbatim>\<open>add\<close> changes nothing; if not, it
  appends the grant of \<open>v\<close> whose \<^verbatim>\<open>display\<close>, \<^verbatim>\<open>type\<close> and \<^verbatim>\<open>primary\<close> are those of the
  entry where the entry has them (truthy) and otherwise the value, \<^verbatim>\<open>License\<close> and
  \<^verbatim>\<open>false\<close>; adding twice is adding once, and leaves exactly one grant of \<open>v\<close> when there
  was none; the \<^verbatim>\<open>remove\<close> of a value without a grant changes nothing and raises no error;
  \<^verbatim>\<open>add\<close> followed by \<^verbatim>\<open>remove\<close> in one list succeeds and leaves no grant of \<open>v\<close>. And
  \<^verbatim>\<open>modifyUser\<close> applies the list in order to the stored user: for a payload whose
  \<^verbatim>\<open>entitlements\<close> is the array \<open>es\<close>, the user at its position in the collection has,
  after the call, the grants the loop over \<open>es\<close> leaves, whatever the call returns or throws
  afterwards; the collection keeps its length, and the groups, the entitlements and the
  other tenants are as before.
\<close>

theorem patch_entitlements:
  assumes wf: "wellFormedGrants user"
    and a: "field a ''operation'' = JStr ''add''" "field a ''value'' = JStr v"
    and r: "field r ''operation'' = JStr ''remove''" "field r ''value'' = JStr v"
  shows "(hasGrant user v \<longrightarrow> patchEntry user (JObj a) = (None, user))
       \<and> (\<not> hasGrant user v \<longrightarrow>
            patchEntry user (JObj a)
              = (None, setProp user ''entitlements''
                   (JArr (grantsOf user @
                      [JObj [(''value'', JStr v),
                             (''display'', if truthy (field a ''display'') then field a ''display'' else JStr v),
                             (''type'', if truthy (field a ''type'') then field a ''type''
                                        else JStr ''License''),
                             (''primary'', if truthy (field a ''primary'') then field a ''primary''
                                           else JBool False)]]))))
       \<and> patchEntitlements user [JObj a, JObj a] = patchEntitlements user [JObj a]
       \<and> (\<not> hasGrant user v \<longrightarrow> grantCount (snd (patchEntitlements user [JObj a, JObj a])) v = 1)
       \<and> (\<not> hasGrant user v \<longrightarrow> patchEntry user (JObj r) = (None, user))
       \<and> (\<exists>user'. patchEntitlements user [JObj a, JObj r] = (None, user') \<and> \<not> hasGrant user' v)
       \<and> (field scimdata ''entitlements'' = JArr es
            \<and> cfg b = Some ent
            \<and> findOne E [] (users ent) (QEq ''id'' (JStr ident)) = Inr (Some (i, user))
          \<longrightarrow> field (usersOf (snd (modifyUser E now ms cfg b ident scimdata)) b ! i) ''entitlements''
                = field (snd (patchEntitlements user es)) ''entitlements''
            \<and> length (usersOf (snd (modifyUser E now ms cfg b ident scimdata)) b) = length (users ent)
            \<and> map_option groups (snd (modifyUser E now ms cfg b ident scimdata) b) = Some (groups ent)
            \<and> map_option entitlements (snd (modifyUser E now ms cfg b ident scimdata) b)
                = Some (entitlements ent)
            \<and> (\<forall>b'. b' \<noteq> b \<longrightarrow> snd (modifyUser E now ms cfg b ident scimdata) b' = cfg b'))"
proof -
  obtain u where u: "patchEntry user (JObj a) = (None, u)" "wellFormedGrants u" "hasGrant u v"
    "hasGrant user v \<longrightarrow> u = user"
    "\<not> hasGrant user v \<longrightarrow> grantsOf u = grantsOf user @ [newGrant (JObj a)]"
    using patchEntry_add_result [OF wf a] by blast
  have ng: "newGrant (JObj a) = JObj [(''value'', JStr v),
                             (''display'', if truthy (field a ''display'') then field a ''display'' else JStr v),
                             (''type'', if truthy (field a ''type'') then field a ''type''
                                        else JStr ''License''),
                             (''primary'', if truthy (field a ''primary'') then field a ''primary''
                                           else JBool False)]"
    by (simp add: newGrant_def readProp_def a orElse_def)
  have 1: "patchEntry user (JObj a) = (None, user)" if "hasGrant user v"
    using u that by simp
  have 2: "patchEntry user (JObj a)
              = (None, setProp user ''entitlements''
                   (JArr (grantsOf user @
                      [JObj [(''value'', JStr v),
                             (''display'', if truthy (field a ''display'') then field a ''display'' else JStr v),
                             (''type'', if truthy (field a ''type'') then field a ''type''
                                        else JStr ''License''),
                             (''primary'', if truthy (field a ''primary'') then field a ''primary''
                                           else JBool False)]])))"
    if "\<not> hasGrant user v"
    using patchEntry_add [OF wf a] that by (simp only: ng if_False)
  have again: "patchEntry u (JObj a) = (None, u)"
    using patchEntry_add [OF u(2) a] u(3) by simp
  have 3: "patchEntitlements user [JObj a, JObj a] = patchEntitlements user [JObj a]"
    by (simp add: u(1) again)
  have 4: "grantCount (snd (patchEntitlements user [JObj a, JObj a])) v = 1" if h: "\<not> hasGrant user v"
  proof -
    have "filter (\<lambda>g. readProp g ''value'' = JStr v) (grantsOf user) = []"
      using h by (simp add: hasGrant_def list_ex_iff filter_empty_conv)
    then show ?thesis using u(5) h
      by (simp add: u(1) again grantCount_def newGrant_value a)
  qed
  have 5: "patchEntry user (JObj r) = (None, user)" if h: "\<not> hasGrant user v"
  proof (cases "truthy (field user ''entitlements'')")
    case True
    have "\<exists>gs. field user ''entitlements'' = JArr gs \<and> grantsOf user = gs"
      using wf True by (cases "field user ''entitlements''") (auto simp: wellFormedGrants_def grantsOf_def)
    then obtain gs where gs: "field user ''entitlements'' = JArr gs" "grantsOf user = gs"
      by blast
    have "filter (\<lambda>g. readProp g ''value'' \<noteq> JStr v) gs = gs"
      using h gs by (intro filter_absent) (simp add: hasGrant_def)
    then show ?thesis using patchEntry_remove [OF wf r] True gs
      by (simp add: setProp_same)
  next
    case False
    then show ?thesis using patchEntry_remove [OF wf r] by simp
  qed
  have 6: "\<exists>user'. patchEntitlements user [JObj a, JObj r] = (None, user') \<and> \<not> hasGrant user' v"
    using patchEntry_remove [OF u(2) r] hasGrant_truthy [OF u(3)] u(1)
    by (simp add: hasGrant_filtered)
  have 7: "field (usersOf (snd (modifyUser E now ms cfg b ident scimdata)) b ! i) ''entitlements''
                = field (snd (patchEntitlements user es)) ''entitlements''
            \<and> length (usersOf (snd (modifyUser E now ms cfg b ident scimdata)) b) = length (users ent)
            \<and> map_option groups (snd (modifyUser E now ms cfg b ident scimdata) b) = Some (groups ent)
            \<and> map_option entitlements (snd (modifyUser E now ms cfg b ident scimdata) b)
                = Some (entitlements ent)
            \<and> (\<forall>b'. b' \<noteq> b \<longrightarrow> snd (modifyUser E now ms cfg b ident scimdata) b' = cfg b')"
    if h: "field scimdata ''entitlements'' = JArr es
            \<and> cfg b = Some ent
            \<and> findOne E [] (users ent) (QEq ''id'' (JStr ident)) = Inr (Some (i, user))"
  proof -
    have fo: "firstMatch (\<lambda>d. field d ''id'' = JStr ident) (users ent) = Some (i, user)"
      using h by (simp add: findOne_id)
    have i: "i < length (users ent)" using firstMatch_Some [OF fo] by simp
    obtain d where d: "snd (modifyUser E now ms cfg b ident scimdata)
                          = setUsers cfg b ent ((users ent)[i := d])"
      "field d ''entitlements'' = field (snd (patchEntitlements user es)) ''entitlements''"
      using modifyUser_stored [where now = now and ms = ms and E = E and cfg = cfg and b = b
          and ent = ent and ident = ident and i = i and user = user and scimdata = scimdata and es = es]
        h by blast
    show ?thesis using i d(2) by (simp add: d(1) setUsers_def usersOf_def)
  qed
  show ?thesis using 1 2 3 4 5 6 7 by blast
qed

text \<open>
  The theorem at work on the sample user \<^verbatim>\<open>bjensen\<close>, who holds \<^verbatim>\<open>entitlement-123\<close>
  and \<^verbatim>\<open>entitlement-789\<close>. The patch \<open>patchData\<close> adds, removes and adds again
  \<^verbatim>\<open>entitlement-456\<close>: the call throws on the version the store gave the user, and the
  stored user holds the three grants.
\<close>

theorem patch_entitlements_witness:
  "wellFormedGrants bjensen
   \<and> field addEntry ''operation'' = JStr ''add'' \<and> field addEntry ''value'' = JStr ''entitlement-456''
   \<and> field removeEntry ''operation'' = JStr ''remove''
   \<and> field removeEntry ''value'' = JStr ''entitlement-456''
   \<and> \<not> hasGrant bjensen ''entitlement-456''
   \<and> patchEntry bjensen (JObj addEntry)
       = (None, setProp bjensen ''entitlements''
            (JArr (grantsOf bjensen @
               [JObj [(''value'', JStr ''entitlement-456''), (''display'', JStr ''entitlement-456''),
                      (''type'', JStr ''License''), (''primary'', JBool False)]])))
   \<and> grantCount (snd (patchEntitlements bjensen [JObj addEntry, JObj addEntry])) ''entitlement-456'' = 1
   \<and> patchEntry bjensen (JObj removeEntry) = (None, bjensen)
   \<and> patchEntitlements bjensen [JObj addEntry, JObj removeEntry] = (None, bjensen)
   \<and> field addNamed ''operation'' = JStr ''add'' \<and> field addNamed ''value'' = JStr ''entitlement-abc''
   \<and> \<not> hasGrant bjensen ''entitlement-abc''
   \<and> patchEntry bjensen (JObj addNamed)
       = (None, setProp bjensen ''entitlements''
            (JArr (grantsOf bjensen @
               [JObj [(''value'', JStr ''entitlement-abc''), (''display'', JStr ''Support''),
                      (''type'', JStr ''Service''), (''primary'', JBool True)]])))
   \<and> field addExisting ''operation'' = JStr ''add'' \<and> field addExisting ''value'' = JStr ''entitlement-123''
   \<and> hasGrant bjensen ''entitlement-123''
   \<and> patchEntry bjensen (JObj addExisting) = (None, bjensen)
   \<and> field patchData ''entitlements'' = JArr [JObj addEntry, JObj removeEntry, JObj addEntry]
   \<and> sampleConfig ''loki'' = Some sampleEntity
   \<and> findOne refEngine [] (users sampleEntity) (QEq ''id'' (JStr ''bjensen'')) = Inr (Some (0, bjensen))
   \<and> map_sum errName id
        (fst (modifyUser refEngine ''2023-11-14T22:13:21.000Z'' (sampleClock + 1000) sampleConfig ''loki''
                ''bjensen'' patchData))
       = Inl ''TypeError''
   \<and> map (\<lambda>g. readProp g ''value'')
        (grantsOf (usersOf (snd (modifyUser refEngine ''2023-11-14T22:13:21.000Z'' (sampleClock + 1000)
                                   sampleConfig ''loki'' ''bjensen'' patchData)) ''loki'' ! 0))
       = [JStr ''entitlement-123'', JStr ''entitlement-789'', JStr ''entitlement-456'']
   \<and> length (usersOf (snd (modifyUser refEngine ''2023-11-14T22:13:21.000Z'' (sampleClock + 1000)
                               sampleConfig ''loki'' ''bjensen'' patchData)) ''loki'') = 2"
proof -
  let ?v = "''entitlement-456''"
  let ?es = "[JObj addEntry, JObj removeEntry, JObj addEntry]"
  let ?X = "modifyUser refEngine ''2023-11-14T22:13:21.000Z'' (sampleClock + 1000) sampleConfig ''loki''
              ''bjensen'' patchData"
  have wf: "wellFormedGrants bjensen" by code_simp
  have a: "field addEntry ''operation'' = JStr ''add''" "field addEntry ''value'' = JStr ?v"
    by (simp_all add: addEntry_def field_def)
  have r: "field removeEntry ''operation'' = JStr ''remove''" "field removeEntry ''value'' = JStr ?v"
    by (simp_all add: removeEntry_def field_def)
  have x: "field addExisting ''operation'' = JStr ''add''"
    "field addExisting ''value'' = JStr ''entitlement-123''"
    by (simp_all add: addExisting_def field_def)
  have nm: "field addNamed ''operation'' = JStr ''add''"
    "field addNamed ''value'' = JStr ''entitlement-abc''"
    by (simp_all add: addNamed_def field_def)
  have n: "\<not> hasGrant bjensen ?v" by code_simp
  have n': "\<not> hasGrant bjensen ''entitlement-abc''" by code_simp
  have h: "hasGrant bjensen ''entitlement-123''" by code_simp
  have pd: "field patchData ''entitlements'' = JArr ?es" by (simp add: patchData_def field_def)
  have cf: "sampleConfig ''loki'' = Some sampleEntity" by (simp add: sampleConfig_def)
  have fo: "findOne refEngine [] (users sampleEntity) (QEq ''id'' (JStr ''bjensen'')) = Inr (Some (0, bjensen))"
    by code_simp
  note t = patch_entitlements [where user = bjensen and a = addEntry and r = removeEntry and v = ?v
      and scimdata = patchData and es = ?es and cfg = sampleConfig and b = "''loki''"
      and ent = sampleEntity and E = refEngine and ident = "''bjensen''" and i = 0
      and now = "''2023-11-14T22:13:21.000Z''" and ms = "sampleClock + 1000", OF wf a r]
  have y: "field [(''value'', JStr ''entitlement-123''), (''operation'', JStr ''remove'')] ''operation''
             = JStr ''remove''"
    "field [(''value'', JStr ''entitlement-123''), (''operation'', JStr ''remove'')] ''value''
             = JStr ''entitlement-123''"
    by (simp_all add: field_def)
  note t' = patch_entitlements [where user = bjensen and a = addExisting
      and r = "[(''value'', JStr ''entitlement-123''), (''operation'', JStr ''remove'')]"
      and v = "''entitlement-123''", OF wf x y]
  have z: "field [(''value'', JStr ''entitlement-abc''), (''operation'', JStr ''remove'')] ''operation''
             = JStr ''remove''"
    "field [(''value'', JStr ''entitlement-abc''), (''operation'', JStr ''remove'')] ''value''
             = JStr ''entitlement-abc''"
    by (simp_all add: field_def)
  note t'' = patch_entitlements [where user = bjensen and a = addNamed
      and r = "[(''value'', JStr ''entitlement-abc''), (''operation'', JStr ''remove'')]"
      and v = "''entitlement-abc''", OF wf nm z]
  have d: "field addEntry ''display'' = JUndefined" "field addEntry ''type'' = JUndefined"
    "field addEntry ''primary'' = JUndefined"
    by (simp_all add: addEntry_def field_def)
  have d': "field addNamed ''display'' = JStr ''Support''" "field addNamed ''type'' = JStr ''Service''"
    "field addNamed ''primary'' = JBool True"
    by (simp_all add: addNamed_def field_def)
  have 1: "patchEntry bjensen (JObj addEntry)
       = (None, setProp bjensen ''entitlements''
            (JArr (grantsOf bjensen @
               [JObj [(''value'', JStr ?v), (''display'', JStr ?v),
                      (''type'', JStr ''License''), (''primary'', JBool False)]])))"
    using t n by (simp add: d)
  have named: "patchEntry bjensen (JObj addNamed)
       = (None, setProp bjensen ''entitlements''
            (JArr (grantsOf bjensen @
               [JObj [(''value'', JStr ''entitlement-abc''), (''display'', JStr ''Support''),
                      (''type'', JStr ''Service''), (''primary'', JBool True)]])))"
    using t'' n' by (simp add: d')
  have 2: "grantCount (snd (patchEntitlements bjensen [JObj addEntry, JObj addEntry])) ?v = 1"
    using t n by blast
  have 3: "patchEntry bjensen (JObj removeEntry) = (None, bjensen)"
    using t n by blast
  have 4: "patchEntitlements bjensen [JObj addEntry, JObj removeEntry] = (None, bjensen)"
    by code_simp
  have 5: "patchEntry bjensen (JObj addExisting) = (None, bjensen)"
    using t' h by blast
  have thrown: "map_sum errName id (fst ?X) = Inl ''TypeError''"
    by code_simp
  have st: "field (usersOf (snd ?X) ''loki'' ! 0) ''entitlements''
              = field (snd (patchEntitlements bjensen ?es)) ''entitlements''"
    "length (usersOf (snd ?X) ''loki'') = length (users sampleEntity)"
    using t pd cf fo by blast+
  have "map (\<lambda>g. readProp g ''value'')
        (grantsOf (snd (patchEntitlements bjensen ?es)))
        = [JStr ''entitlement-123'', JStr ''entitlement-789'', JStr ''entitlement-456'']"
    by code_simp
  then have 6: "map (\<lambda>g. readProp g ''value'') (grantsOf (usersOf (snd ?X) ''loki'' ! 0))
       = [JStr ''entitlement-123'', JStr ''entitlement-789'', JStr ''entitlement-456'']"
    using st(1) by (simp add: grantsOf_def)
  have 7: "length (usersOf (snd ?X) ''loki'') = 2"
    using st(2) by (simp add: sampleEntity_def)
  show ?thesis by (intro conjI wf a r n 1 2 3 4 nm n' named x h 5 pd cf fo thrown 6 7)
qed

subsection \<open>What the store makes of a created document\<close>

lemma insertDoc_stamps:
  assumes "insertDoc uniq data loki ms d = Inr (data', stored)"
  shows "readProp (field stored ''meta'') ''version'' = JNum 0"
    and "readProp (field stored ''meta'') ''created'' = JNum ms"
    and "readProp (field stored ''meta'') ''revision'' = JNum 0"
    and "field stored ''$loki'' = JNum loki"
  using assms
  by (auto simp: insertDoc_def Let_def field_setProp readProp_def
      split: if_splits jsval.splits option.splits)

lemma createUser_stamped:
  assumes "createUser E uuid t1 t2 loki ms cfg b scimdata = (Inr user, cfg')"
  shows "readProp (field user ''meta'') ''version'' = JNum 0"
    and "readProp (field user ''meta'') ''created'' = JNum ms"
proof -
  let ?d = "setProp (setProp (copyObj scimdata) ''id'' (JStr uuid)) ''meta'' (newMeta ''User'' t1 t2)"
  obtain ent where c: "cfg b = Some ent"
    using assms by (cases "cfg b") (simp_all add: createUser_def)
  have "\<exists>data. insertDoc usersUnique (users ent) loki ms ?d = Inr (data, user)"
    using assms c
    by (auto simp: createUser_def Let_def split: if_splits sum.splits option.splits prod.splits)
  then obtain data where "insertDoc usersUnique (users ent) loki ms ?d = Inr (data, user)"
    by blast
  then show "readProp (field user ''meta'') ''version'' = JNum 0"
    and "readProp (field user ''meta'') ''created'' = JNum ms"
    using insertDoc_stamps by blast+
qed

lemma createUser_duplicate_refused:
  assumes "cfg b = Some ent" and "field scimdata ''userName'' = JStr n" and "n \<noteq> []"
    and "JStr n \<in> set (map (\<lambda>d. field d ''userName'') (users ent))"
  shows "createUser E uuid t1 t2 loki ms cfg b scimdata
           = (Inl (Err ''uniqueness''
                (''createUser error: user with userName '' @ squote @ n @ squote @ '' already exists'')),
              cfg)"
proof -
  have "\<exists>d\<in>set (users ent). field d ''userName'' = JStr n"
    using assms(4) by (auto simp: image_iff)
  then obtain m where "firstMatch (\<lambda>d. field d ''userName'' = JStr n) (users ent) = Some m"
    using firstMatch_exists [of "users ent" "\<lambda>d. field d ''userName'' = JStr n"] by blast
  then have f: "findOne E [] (users ent) (QEq ''userName'' (field scimdata ''userName'')) = Inr (Some m)"
    by (simp add: assms(2) findOne_userName)
  have t: "truthy (field scimdata ''userName'')" by (simp add: assms(2,3))
  have s: "toStr (field scimdata ''userName'') = n" by (simp add: assms(2))
  show ?thesis
    unfolding createUser_def by (simp add: assms(1) t f s namedError_def)
qed

lemma handleEntitlements_meta:
  assumes "handleEntitlements user scimdata = (x, user1, scimdata1)"
  shows "field user1 ''meta'' = field user ''meta''"
proof (cases "field scimdata ''entitlements''")
  case (JArr es)
  have "field (snd (patchEntitlements user es)) ''meta'' = field user ''meta''"
    by (rule patchEntitlements_field) simp
  then show ?thesis using assms JArr
    by (auto simp: handleEntitlements_def split: prod.splits option.splits)
qed (use assms in \<open>simp_all add: handleEntitlements_def\<close>)

lemma advanceMeta_numeric_version:
  assumes "field u ''meta'' = JObj m" and "field m ''version'' = JNum n"
  shows "map_option errName (fst (advanceMeta E who now u)) = Some ''TypeError''"
  using assms by (simp add: advanceMeta_def Let_def nextVersion_def field_setProp typeError_def)

lemma modifyUser_numeric_version:
  assumes c: "cfg b = Some ent"
    and f: "findOne E [] (users ent) (QEq ''id'' (JStr ident)) = Inr (Some (i, user))"
    and m: "field user ''meta'' = JObj m" "field m ''version'' = JNum n"
    and h: "fst (handleEntitlements user scimdata) = None"
  shows "map_sum errName id (fst (modifyUser E now ms cfg b ident scimdata)) = Inl ''TypeError''"
proof -
  obtain user1 scimdata1 where p: "handleEntitlements user scimdata = (None, user1, scimdata1)"
    using h by (cases "handleEntitlements user scimdata") auto
  have "field (mergeProps user1 scimdata1) ''meta'' = JObj m"
    using handleEntitlements_meta [OF p] m(1) by (simp add: mergeProps_meta)
  from advanceMeta_numeric_version [OF this m(2), of E "''user''" now]
  obtain err user2 where "advanceMeta E ''user'' now (mergeProps user1 scimdata1) = (Some err, user2)"
    and "errName err = ''TypeError''"
    by (cases "advanceMeta E ''user'' now (mergeProps user1 scimdata1)") auto
  then show ?thesis
    using p unfolding modifyUser_found [where cfg = cfg and b = b, OF c f] by simp
qed

subsection \<open>Unique lookups (claim C1)\<close>

lemma loadHandler_sample: "loadHandler refEngine sampleClock testUsers [] = Inr sampleEntity"
  by code_simp

text \<open>
  Claim C1 has zero or one record in the result of every query with the operator \<^verbatim>\<open>eq\<close>
  on an identifying attribute, and the comment on that branch of \<^verbatim>\<open>getEntitlements\<close> reads
  "single unique entitlement to be returned". The branch returns every document the lookup
  matches. On the tenant as the load handler fills it, the query \<^verbatim>\<open>type eq "license"\<close>
  returns the two test entitlements of type \<^verbatim>\<open>License\<close>.
\<close>

theorem unique_lookup_returns_two:
  "fst (getEntitlements refEngine sampleConfig ''loki'' byType)
     = Inr \<lparr>Resources = [storedEntitlements ! 0, storedEntitlements ! 1], totalResults = 2\<rparr>"
  by code_simp

subsection \<open>Creating a user (claim C6)\<close>

text \<open>
  Claim C6 has a created user stamped with \<^verbatim>\<open>created = lastModified\<close> and the version
  \<^verbatim>\<open>W/"1"\<close>, and \<^verbatim>\<open>createUser\<close> writes just that into \<^verbatim>\<open>meta\<close> before it hands the
  user to the store. The store's \<^verbatim>\<open>insert\<close> then assigns \<^verbatim>\<open>meta.version\<close>,
  \<^verbatim>\<open>meta.created\<close> and \<^verbatim>\<open>meta.revision\<close> of the same object, which is the one
  \<^verbatim>\<open>createUser\<close> returns. On the sample tenant the create of \<open>alice\<close> returns, and
  stores, a user whose version is the number \<open>0\<close> and whose \<^verbatim>\<open>created\<close> is the store's
  clock in milliseconds, next to a \<^verbatim>\<open>lastModified\<close> that is a date string.
\<close>

theorem create_stamps_overwritten:
  "fst createAlice
     = Inr (alice @
            [(''id'', JStr ''u3''),
             (''meta'', JObj [(''resourceType'', JStr ''User''),
                              (''created'', JNum (sampleClock + 500)),
                              (''lastModified'', JStr ''2023-11-14T22:13:20.500Z''),
                              (''version'', JNum 0),
                              (''revision'', JNum 0)]),
             (''$loki'', JNum 3)])
   \<and> map_sum id (\<lambda>user. [user]) (fst createAlice) = Inr (drop 2 (usersOf (snd createAlice) ''loki''))
   \<and> newMeta ''User'' ''2023-11-14T22:13:20.500Z'' ''2023-11-14T22:13:20.500Z''
       = JObj [(''resourceType'', JStr ''User''),
               (''created'', JStr ''2023-11-14T22:13:20.500Z''),
               (''lastModified'', JStr ''2023-11-14T22:13:20.500Z''),
               (''version'', JStr (''W/'' @ dquote @ ''1'' @ dquote))]"
  by code_simp

subsection \<open>Version tags\<close>

text \<open>
  What \<^verbatim>\<open>modifyUser\<close> and \<^verbatim>\<open>modifyGroup\<close> compute from a version that is a string:
  the tag \<^verbatim>\<open>W/"n"\<close> gives \<^verbatim>\<open>W/"n+1"\<close>, and a missing or empty version gives
  \<^verbatim>\<open>W/"1"\<close>.
\<close>

lemma digits_table:
  "list_all (\<lambda>d. digitVal (digitChar d) = Some d \<and> digitChar d \<in> set ''0123456789'') [0..<10]"
  by code_simp

lemma digitVal_digitChar: "d < 10 \<Longrightarrow> digitVal (digitChar d) = Some d"
  using digits_table by (simp add: list_all_iff)

lemma digitChar_in: "d < 10 \<Longrightarrow> digitChar d \<in> set ''0123456789''"
  using digits_table by (simp add: list_all_iff)

lemma digit_chars_table:
  "list_all (\<lambda>c. isDigit 10 c \<and> \<not> isSpace c \<and> c \<noteq> CHR ''-'' \<and> c \<noteq> CHR ''+'' \<and> c \<noteq> CHR ''x''
                \<and> c \<noteq> CHR ''X'' \<and> c \<noteq> CHR 0x22) ''0123456789''"
  by code_simp

lemma natToString_chars: "set (natToString k) \<subseteq> set ''0123456789''"
proof (induction k rule: natToString.induct)
  case (1 n)
  show ?case
  proof (cases "n < 10")
    case True
    then show ?thesis using digitChar_in [of n] by (subst natToString.simps) simp
  next
    case False
    have "n mod 10 < 10" by simp
    then have "digitChar (n mod 10) \<in> set ''0123456789''" by (rule digitChar_in)
    then show ?thesis using False 1 by (subst natToString.simps) simp
  qed
qed

lemma natToString_nonempty: "natToString k \<noteq> []"
  by (subst natToString.simps) simp

lemma isDigit_chars: "c \<in> set ''0123456789'' \<Longrightarrow> isDigit 10 c"
  using digit_chars_table unfolding list_all_iff by blast

lemma takeWhile_digits: "takeWhile (isDigit 10) (natToString k) = natToString k"
  using natToString_chars [of k] isDigit_chars by (intro takeWhile_eq_all_conv [THEN iffD2]) blast

lemma digitsValue_snoc:
  "digitsValue r (ds @ [c]) = (case digitVal c of None \<Rightarrow> digitsValue r ds | Some d \<Rightarrow> digitsValue r ds * r + d)"
  by (simp add: digitsValue_def split: option.splits)

lemma digitsValue_natToString: "digitsValue 10 (natToString k) = k"
proof (induction k rule: natToString.induct)
  case (1 n)
  show ?case
  proof (cases "n < 10")
    case True
    then show ?thesis
      by (subst natToString.simps) (simp add: digitsValue_def digitVal_digitChar)
  next
    case False
    have "n mod 10 < 10" by simp
    then have d: "digitVal (digitChar (n mod 10)) = Some (n mod 10)" by (rule digitVal_digitChar)
    have "digitsValue 10 (natToString (n div 10) @ [digitChar (n mod 10)]) = n div 10 * 10 + n mod 10"
      using 1 False by (simp add: digitsValue_snoc d)
    then show ?thesis using False by (subst natToString.simps) simp
  qed
qed

lemma parseDigits_natToString: "parseDigits 10 (natToString k) = Some k"
  by (simp add: parseDigits_def takeWhile_digits natToString_nonempty digitsValue_natToString)

lemma natToString_hd:
  "\<exists>c cs. natToString k = c # cs \<and> c \<in> set ''0123456789'' \<and> set cs \<subseteq> set ''0123456789''"
  using natToString_chars [of k] natToString_nonempty [of k] by (cases "natToString k") auto

lemma parseUnsigned_natToString: "parseUnsigned (natToString k) = Some k"
proof -
  obtain c cs where s: "natToString k = c # cs" and cs: "set cs \<subseteq> set ''0123456789''"
    using natToString_hd by blast
  have "CHR ''x'' \<notin> set cs" "CHR ''X'' \<notin> set cs"
    using cs digit_chars_table unfolding list_all_iff by blast+
  then have "take 2 (c # cs) \<noteq> ''0x''" "take 2 (c # cs) \<noteq> ''0X''"
    by (cases cs; auto)+
  then have nx: "\<not> (take 2 (natToString k) = ''0x'' \<or> take 2 (natToString k) = ''0X'')"
    unfolding s by blast
  show ?thesis unfolding parseUnsigned_def using nx parseDigits_natToString [of k]
    by (simp only: if_False)
qed

lemma parseInt_numToString: "parseInt (numToString n) = Some n"
proof (cases "n < 0")
  case True
  then show ?thesis
    by (simp add: numToString_def parseInt_def isSpace_def parseUnsigned_natToString)
next
  case False
  obtain c cs where s: "natToString (nat n) = c # cs" and c: "c \<in> set ''0123456789''"
    using natToString_hd by blast
  have "\<not> isSpace c" "c \<noteq> CHR ''-''" "c \<noteq> CHR ''+''"
    using c digit_chars_table unfolding list_all_iff by blast+
  then show ?thesis using False parseUnsigned_natToString [of "nat n"]
    by (simp add: numToString_def parseInt_def s)
qed

lemma numToString_nonempty: "numToString n \<noteq> []"
  by (simp add: numToString_def natToString_nonempty)

lemma numToString_no_quote: "CHR 0x22 \<notin> set (numToString n)"
proof -
  have "CHR 0x22 \<notin> set (natToString k)" for k
    using natToString_chars [of k] digit_chars_table unfolding list_all_iff by blast
  then show ?thesis by (simp add: numToString_def)
qed

lemma removeFirst_absent: "c \<notin> set s \<Longrightarrow> removeFirst [c] (s @ [c]) = s"
  by (induction s) auto

lemma removeFirst_prefix: "p \<noteq> [] \<Longrightarrow> removeFirst p (p @ s) = s"
  by (cases p) auto

lemma nextVersion_tag:
  assumes "- (2 ^ 53) \<le> n" and "n < 2 ^ 53"
  shows "nextVersion E who (JStr (versionTag n)) = Inr (versionTag (n + 1))"
proof -
  have 1: "removeFirst (''W/'' @ dquote) (versionTag n) = numToString n @ dquote"
    using removeFirst_prefix [of "''W/'' @ dquote" "numToString n @ dquote"]
    by (simp add: versionTag_def)
  have 2: "removeFirst dquote (numToString n @ dquote) = numToString n"
    using removeFirst_absent [OF numToString_no_quote] by (simp add: dquote_def)
  show ?thesis
    using assms
    by (simp add: nextVersion_def 1 2 Let_def numToString_nonempty parseInt_numToString
        formatVersion_def versionTag_def)
qed

lemma parseInt_zero: "parseInt ''0'' = Some 0"
  by code_simp

lemma nextVersion_missing:
  "nextVersion E who JUndefined = Inr (versionTag 1)" "nextVersion E who JNull = Inr (versionTag 1)"
  "nextVersion E who (JStr []) = Inr (versionTag 1)"
  by (simp_all add: nextVersion_def formatVersion_def versionTag_def Let_def parseInt_zero)

subsection \<open>Advancing the metadata (claim C4)\<close>

text \<open>
  Claim C4 has every successful update replace the version \<^verbatim>\<open>W/"n"\<close> by
  \<^verbatim>\<open>W/"n+1"\<close>, so that a record created with \<^verbatim>\<open>W/"1"\<close> has \<^verbatim>\<open>W/"2"\<close> after one
  update, and \<^verbatim>\<open>modifyUser\<close> and \<^verbatim>\<open>modifyGroup\<close> compute just that from a version that
  is a string. The version of a stored document is the number \<open>0\<close> the store's \<^verbatim>\<open>insert\<close>
  gave it (the cause is the one of claim C6), on which \<^verbatim>\<open>version?.replace\<close> is no
  function: the update of the user and of the group just created throws a TypeError after
  it has set \<^verbatim>\<open>lastModified\<close>, and the version stays \<open>0\<close>.
\<close>

theorem update_after_create_throws:
  "map_sum errName id
     (fst (modifyUser refEngine ''2023-11-14T22:13:21.000Z'' (sampleClock + 1000) (snd createAlice) ''loki''
             ''u3'' [(''active'', JBool False)]))
     = Inl ''TypeError''
   \<and> map (\<lambda>d. readProp (field d ''meta'') ''version'')
        (drop 2 (usersOf (snd (modifyUser refEngine ''2023-11-14T22:13:21.000Z'' (sampleClock + 1000)
                                 (snd createAlice) ''loki'' ''u3'' [(''active'', JBool False)])) ''loki''))
       = [JNum 0]
   \<and> map (\<lambda>d. readProp (field d ''meta'') ''lastModified'')
        (drop 2 (usersOf (snd (modifyUser refEngine ''2023-11-14T22:13:21.000Z'' (sampleClock + 1000)
                                 (snd createAlice) ''loki'' ''u3'' [(''active'', JBool False)])) ''loki''))
       = [JStr ''2023-11-14T22:13:21.000Z'']
   \<and> map_sum id (\<lambda>g. readProp (field g ''meta'') ''version'') (fst createAdmins) = Inr (JNum 0)
   \<and> map_sum errName id
       (fst (modifyGroup refEngine ''2023-11-14T22:13:21.000Z'' (sampleClock + 1000) (snd createAdmins)
               ''loki'' ''g1'' [(''displayName'', JStr ''Administrators'')]))
     = Inl ''TypeError''"
  by code_simp

end
